theory Spec2Isabelle
  imports Main "HOL-Library.Sublist"
begin

section \<open>The SARIF report, as the JSON decoders hand it to the integrations\<close>

text \<open>
  All four editor integrations read the same JSON shape (interfaces \<^verbatim>\<open>SarifResult\<close>,
  \<^verbatim>\<open>SarifRun\<close>, \<^verbatim>\<open>SarifRule\<close>, \<^verbatim>\<open>SarifResultItem\<close>, \<^verbatim>\<open>SarifLocation\<close> of
  scanService.ts). A decoded JSON object may lack any key, and every integration tests
  for presence (\<^verbatim>\<open>?.\<close>, \<^verbatim>\<open>||\<close>, \<^verbatim>\<open>has\<close>, \<^verbatim>\<open>or\<close>), so every field is an option:
  \<open>None\<close> is an absent key (JavaScript \<^verbatim>\<open>undefined\<close>, Lua \<^verbatim>\<open>nil\<close>, Gson \<^verbatim>\<open>null\<close>).
  Values of the wrong JSON type are excluded by the types. A line or column number is
  the integer its JSON literal denotes; each integration reads it in its own number type.
\<close>

record sarif_region =
  startLine :: "int option"
  startColumn :: "int option"
  endLine :: "int option"
  endColumn :: "int option"

record sarif_artifactLocation =
  uri :: "string option"

record sarif_physicalLocation =
  artifactLocation :: "sarif_artifactLocation option"
  region :: "sarif_region option"

record SarifLocation =
  physicalLocation :: "sarif_physicalLocation option"

record sarif_message =
  "text" :: "string option"

record SarifResultItem =
  ruleId :: "string option"
  level :: "string option"
  message :: "sarif_message option"
  locations :: "SarifLocation list option"

record SarifRule =
  id_rule :: "string option"
  shortDescription :: "sarif_message option"
  fullDescription :: "sarif_message option"

record sarif_driver =
  rules :: "SarifRule list option"

record sarif_tool =
  driver :: "sarif_driver option"

record SarifRun =
  tool :: "sarif_tool option"
  results :: "SarifResultItem list option"

record SarifResult =
  runs :: "SarifRun list option"

section \<open>String operations of the host languages\<close>

text \<open>The scheme prefix every integration removes from an artifact URI.\<close>

definition file_scheme :: string where
  "file_scheme = ''file://''"

text \<open>
  JavaScript \<^verbatim>\<open>s.replace(pat, rep)\<close> with a string pattern: only the first occurrence,
  wherever it is, is replaced.
\<close>

fun js_replace :: "string \<Rightarrow> string \<Rightarrow> string \<Rightarrow> string" where
  "js_replace pat rep [] = (if pat = [] then rep else [])"
| "js_replace pat rep (c # cs) =
     (if prefix pat (c # cs) then rep @ drop (length pat) (c # cs)
      else c # js_replace pat rep cs)"

text \<open>
  Java \<^verbatim>\<open>s.replace(target, replacement)\<close>: every occurrence, left to right, is replaced.
  (Only used with a non-empty target.)
\<close>

function java_replace :: "string \<Rightarrow> string \<Rightarrow> string \<Rightarrow> string" where
  "java_replace pat rep [] = []"
| "java_replace pat rep (c # cs) =
     (if pat \<noteq> [] \<and> prefix pat (c # cs)
      then rep @ java_replace pat rep (drop (length pat) (c # cs))
      else c # java_replace pat rep cs)"
  by pat_completeness auto
termination
  by (relation "measure (\<lambda>(pat, rep, s). length s)") (auto simp: Suc_le_eq)

text \<open>Java \<^verbatim>\<open>s.endsWith(suf)\<close>.\<close>

definition endsWith :: "string \<Rightarrow> string \<Rightarrow> bool" where
  "endsWith s suf = prefix (rev suf) (rev s)"

text \<open>
  Lua \<^verbatim>\<open>s:gsub("^file://", "")\<close> (first return value): the pattern is anchored, so only a
  leading occurrence is removed.
\<close>

definition lua_gsub_file_prefix :: "string \<Rightarrow> string" where
  "lua_gsub_file_prefix s =
     (if prefix file_scheme s then drop (length file_scheme) s else s)"

text \<open>Decimal rendering of a number inside a message (\<^verbatim>\<open>"" + n\<close>, \<^verbatim>\<open>${n}\<close>, \<^verbatim>\<open>%d\<close>).\<close>

definition digit_char :: "nat \<Rightarrow> char" where
  "digit_char d = ''0123456789'' ! d"

function string_of_nat :: "nat \<Rightarrow> string" where
  "string_of_nat n =
     (if n < 10 then [digit_char n] else string_of_nat (n div 10) @ [digit_char (n mod 10)])"
  by pat_completeness auto
termination
  by (relation "measure id") auto

definition string_of_int :: "int \<Rightarrow> string" where
  "string_of_int i = (if i < 0 then CHR ''-'' # string_of_nat (nat (- i)) else string_of_nat (nat i))"

section \<open>VS Code: diagnostics.ts\<close>

datatype DiagnosticSeverity = Error | Warning | Information | Hint

text \<open>
  A JavaScript exception that leaves the function, with its message: a \<^verbatim>\<open>TypeError\<close>, or
  the plain \<^verbatim>\<open>Error\<close> that the \<^verbatim>\<open>vscode\<close> library builds for an illegal argument.
  \<open>error_text\<close> is its rendering in a template string.
\<close>

datatype js_error = TypeError string | PlainError string

definition error_text :: "js_error \<Rightarrow> string" where
  "error_text e = (case e of TypeError m \<Rightarrow> ''TypeError: '' @ m | PlainError m \<Rightarrow> ''Error: '' @ m)"

subsection \<open>JavaScript numbers\<close>

text \<open>
  A line or column number is a JavaScript number, a double. \<open>JSON.parse\<close> reads an
  integer literal as the nearest double (ties to even), which is the integer itself below
  \<open>2 ^ 53\<close>, another integer above, and \<^verbatim>\<open>Infinity\<close> from \<open>2 ^ 1024\<close> on; subtraction
  rounds its exact result the same way. \<open>bit_length\<close> is the number of binary digits,
  \<open>round_to_double\<close> keeps the leading 53 of them.
\<close>

datatype js_number = Number int | PosInfinity | NegInfinity

function bit_length :: "nat \<Rightarrow> nat" where
  "bit_length n = (if n = 0 then 0 else Suc (bit_length (n div 2)))"
  by pat_completeness auto
termination
  by (relation "measure id") auto

declare bit_length.simps [simp del]

definition round_to_double :: "int \<Rightarrow> int" where
  "round_to_double v =
     (let a = nat \<bar>v\<bar>; n = bit_length a
      in if n \<le> 53 then v
         else (let ulp = 2 ^ (n - 53); q = a div ulp; r = a mod ulp;
                   q' = (if 2 * r < ulp \<or> (2 * r = ulp \<and> even q) then q else q + 1)
               in sgn v * int (q' * ulp)))"

definition js_number_of :: "int \<Rightarrow> js_number" where
  "js_number_of v =
     (let r = round_to_double v
      in if 2 ^ 1024 \<le> r then PosInfinity
         else if r \<le> - (2 ^ 1024) then NegInfinity
         else Number r)"

text \<open>\<^verbatim>\<open>x - 1\<close> and \<^verbatim>\<open>x < y\<close> on numbers.\<close>

definition js_minus_one :: "js_number \<Rightarrow> js_number" where
  "js_minus_one x = (case x of Number v \<Rightarrow> js_number_of (v - 1) | PosInfinity \<Rightarrow> PosInfinity
                     | NegInfinity \<Rightarrow> NegInfinity)"

fun js_less :: "js_number \<Rightarrow> js_number \<Rightarrow> bool" where
  "js_less (Number a) (Number b) = (a < b)"
| "js_less (Number a) PosInfinity = True"
| "js_less (Number a) NegInfinity = False"
| "js_less PosInfinity y = False"
| "js_less NegInfinity NegInfinity = False"
| "js_less NegInfinity y = True"

text \<open>\<^verbatim>\<open>x || d\<close> on an optional number: \<^verbatim>\<open>undefined\<close> and \<^verbatim>\<open>0\<close> are falsy.\<close>

definition js_num_or :: "js_number option \<Rightarrow> js_number \<Rightarrow> js_number" where
  "js_num_or x d = (case x of None \<Rightarrow> d | Some v \<Rightarrow> if v = Number 0 then d else v)"

text \<open>Truthiness of an optional string: \<^verbatim>\<open>undefined\<close> and \<^verbatim>\<open>""\<close> are falsy.\<close>

definition js_truthy :: "string option \<Rightarrow> bool" where
  "js_truthy s = (case s of None \<Rightarrow> False | Some v \<Rightarrow> v \<noteq> [])"

subsection \<open>The constructors of the \<^verbatim>\<open>vscode\<close> library\<close>

text \<open>
  \<^verbatim>\<open>new vscode.Position(line, character)\<close> throws on a negative argument.
  \<^verbatim>\<open>new vscode.Range(startLine, startCharacter, endLine, endCharacter)\<close> builds the two
  positions and stores them in order: when the first is not before the second, they are
  swapped. \<^verbatim>\<open>new vscode.Diagnostic(range, message, severity)\<close> throws on a falsy message;
  \<^verbatim>\<open>source\<close> and \<^verbatim>\<open>code\<close> are unset until assigned.
\<close>

record vscode_Range =
  range_startLine :: js_number
  range_startCharacter :: js_number
  range_endLine :: js_number
  range_endCharacter :: js_number

record Diagnostic =
  diag_range :: vscode_Range
  diag_message :: string
  diag_severity :: DiagnosticSeverity
  diag_source :: "string option"
  diag_code :: "string option"

definition newPosition :: "js_number \<Rightarrow> js_number \<Rightarrow> js_error + js_number \<times> js_number" where
  "newPosition line character =
     (if js_less line (Number 0) then Inl (PlainError ''Illegal argument: line must be non-negative'')
      else if js_less character (Number 0)
      then Inl (PlainError ''Illegal argument: character must be non-negative'')
      else Inr (line, character))"

definition isBefore :: "js_number \<times> js_number \<Rightarrow> js_number \<times> js_number \<Rightarrow> bool" where
  "isBefore p q =
     (if js_less (fst p) (fst q) then True
      else if js_less (fst q) (fst p) then False
      else js_less (snd p) (snd q))"

definition newRange ::
  "js_number \<Rightarrow> js_number \<Rightarrow> js_number \<Rightarrow> js_number \<Rightarrow> js_error + vscode_Range" where
  "newRange startLine' startCharacter endLine' endCharacter =
     (case newPosition startLine' startCharacter of
        Inl e \<Rightarrow> Inl e
      | Inr s \<Rightarrow>
          (case newPosition endLine' endCharacter of
             Inl e \<Rightarrow> Inl e
           | Inr e \<Rightarrow>
               Inr (if isBefore s e
                    then \<lparr> range_startLine = fst s, range_startCharacter = snd s,
                           range_endLine = fst e, range_endCharacter = snd e \<rparr>
                    else \<lparr> range_startLine = fst e, range_startCharacter = snd e,
                           range_endLine = fst s, range_endCharacter = snd s \<rparr>)))"

definition newDiagnostic ::
  "vscode_Range \<Rightarrow> string option \<Rightarrow> DiagnosticSeverity \<Rightarrow> js_error + Diagnostic" where
  "newDiagnostic range' message' severity =
     (case message' of
        None \<Rightarrow> Inl (TypeError ''message must be set'')
      | Some m \<Rightarrow>
          if m = [] then Inl (TypeError ''message must be set'')
          else Inr \<lparr> diag_range = range', diag_message = m, diag_severity = severity,
                     diag_source = None, diag_code = None \<rparr>)"

subsection \<open>\<^verbatim>\<open>DiagnosticsManager\<close>\<close>

text \<open>\<^verbatim>\<open>mapSeverity(level)\<close>: a \<^verbatim>\<open>switch\<close> on the string, \<^verbatim>\<open>default\<close> for everything else.\<close>

definition mapSeverity :: "string option \<Rightarrow> DiagnosticSeverity" where
  "mapSeverity lv =
     (if lv = Some ''error'' then Error
      else if lv = Some ''warning'' then Warning
      else if lv = Some ''note'' then Information
      else Hint)"

text \<open>\<^verbatim>\<open>region?.field\<close> on the optional region, as a JavaScript number.\<close>

definition region_field ::
  "sarif_region option \<Rightarrow> (sarif_region \<Rightarrow> int option) \<Rightarrow> js_number option" where
  "region_field r f = (case r of None \<Rightarrow> None | Some g \<Rightarrow> map_option js_number_of (f g))"

text \<open>The \<^verbatim>\<open>new vscode.Range(...)\<close> of lines 53 to 58.\<close>

definition resolveRange :: "sarif_region option \<Rightarrow> js_error + vscode_Range" where
  "resolveRange r =
     newRange
       (js_minus_one (js_num_or (region_field r startLine) (Number 1)))
       (js_minus_one (js_num_or (region_field r startColumn) (Number 1)))
       (js_minus_one (js_num_or (region_field r endLine)
                        (js_num_or (region_field r startLine) (Number 1))))
       (js_minus_one (js_num_or (region_field r endColumn) (Number 999)))"

text \<open>\<^verbatim>\<open>physLoc?.artifactLocation?.uri\<close>.\<close>

definition location_uri :: "SarifLocation \<Rightarrow> string option" where
  "location_uri l =
     (case physicalLocation l of None \<Rightarrow> None
      | Some p \<Rightarrow> (case artifactLocation p of None \<Rightarrow> None | Some a \<Rightarrow> uri a))"

text \<open>\<^verbatim>\<open>physLoc.region\<close>, read after the test of line 46 (\<open>None\<close> is \<^verbatim>\<open>undefined\<close>).\<close>

definition location_region :: "SarifLocation \<Rightarrow> sarif_region option" where
  "location_region l = (case physicalLocation l of None \<Rightarrow> None | Some p \<Rightarrow> region p)"

text \<open>\<^verbatim>\<open>rule?.shortDescription?.text\<close>.\<close>

definition rule_short_text :: "SarifRule option \<Rightarrow> string option" where
  "rule_short_text r =
     (case r of None \<Rightarrow> None
      | Some q \<Rightarrow> (case shortDescription q of None \<Rightarrow> None | Some m \<Rightarrow> text m))"

text \<open>
  \<^verbatim>\<open>item.message.text || rule?.shortDescription?.text || item.ruleId\<close>. Reading
  \<^verbatim>\<open>.text\<close> of an absent \<^verbatim>\<open>message\<close> throws (the message is the wording of the V8
  engine).
\<close>

definition resolveMessage ::
  "SarifResultItem \<Rightarrow> SarifRule option \<Rightarrow> js_error + string option" where
  "resolveMessage item rule =
     (case message item of
        None \<Rightarrow>
          Inl (TypeError (''Cannot read properties of undefined (reading '' @ [CHR 0x27] @ ''text''
                            @ [CHR 0x27] @ '')''))
      | Some m \<Rightarrow>
          Inr (if js_truthy (text m) then text m
               else if js_truthy (rule_short_text rule) then rule_short_text rule
               else ruleId item))"

text \<open>
  The rule table \<^verbatim>\<open>new Map(rules.map((r) => [r.id, r]))\<close>: a later entry with the same
  id replaces an earlier one. Keys are optional strings since an id may be absent.
\<close>

definition rulesMap :: "SarifRule list \<Rightarrow> (string option \<rightharpoonup> SarifRule)" where
  "rulesMap rs = map_of (rev (map (\<lambda>r. (id_rule r, r)) rs))"

text \<open>
  One iteration of the loop over \<^verbatim>\<open>item.locations\<close>, in the order of the source: the
  range, the severity, the rule, the message, the diagnostic. \<open>Inr None\<close> is
  \<^verbatim>\<open>continue\<close>, \<open>Inr (Some (uri, diagnostic))\<close> is the pushed entry.
\<close>

definition diagnosticForLocation ::
  "SarifResultItem \<Rightarrow> (string option \<rightharpoonup> SarifRule) \<Rightarrow> SarifLocation
     \<Rightarrow> js_error + (string \<times> Diagnostic) option" where
  "diagnosticForLocation item rls l =
     (if \<not> js_truthy (location_uri l) then Inr None
      else
        (case resolveRange (location_region l) of
           Inl e \<Rightarrow> Inl e
         | Inr range' \<Rightarrow>
             (case resolveMessage item (rls (ruleId item)) of
                Inl e \<Rightarrow> Inl e
              | Inr msg \<Rightarrow>
                  (case newDiagnostic range' msg (mapSeverity (level item)) of
                     Inl e \<Rightarrow> Inl e
                   | Inr diagnostic \<Rightarrow>
                       Inr (Some (js_replace file_scheme [] (the (location_uri l)),
                                  diagnostic\<lparr> diag_source := Some ''blocksecops'',
                                              diag_code := ruleId item \<rparr>))))))"

fun locationsLoop ::
  "SarifResultItem \<Rightarrow> (string option \<rightharpoonup> SarifRule) \<Rightarrow> SarifLocation list
     \<Rightarrow> js_error + (string \<times> Diagnostic) list" where
  "locationsLoop item rls [] = Inr []"
| "locationsLoop item rls (l # ls) =
     (case diagnosticForLocation item rls l of
        Inl e \<Rightarrow> Inl e
      | Inr None \<Rightarrow> locationsLoop item rls ls
      | Inr (Some d) \<Rightarrow>
          (case locationsLoop item rls ls of Inl e \<Rightarrow> Inl e | Inr ds \<Rightarrow> Inr (d # ds)))"

definition createDiagnosticsForResult ::
  "SarifResultItem \<Rightarrow> (string option \<rightharpoonup> SarifRule) \<Rightarrow> js_error + (string \<times> Diagnostic) list" where
  "createDiagnosticsForResult item rls =
     locationsLoop item rls (case locations item of None \<Rightarrow> [] | Some ls \<Rightarrow> ls)"

text \<open>
  \<^verbatim>\<open>diagnosticsByUri\<close>: a JavaScript \<^verbatim>\<open>Map\<close>, which keeps its keys in insertion order.
  \<open>pushDiagnostic\<close> is the get / push / set of lines 25 to 27.
\<close>

type_synonym diagnosticsByUri = "(string \<times> Diagnostic list) list"

fun pushDiagnostic :: "string \<times> Diagnostic \<Rightarrow> diagnosticsByUri \<Rightarrow> diagnosticsByUri" where
  "pushDiagnostic (u, d) [] = [(u, [d])]"
| "pushDiagnostic (u, d) ((k, ds) # m) =
     (if k = u then (k, ds @ [d]) # m else (k, ds) # pushDiagnostic (u, d) m)"

definition pushAll :: "(string \<times> Diagnostic) list \<Rightarrow> diagnosticsByUri \<Rightarrow> diagnosticsByUri" where
  "pushAll ds m = foldl (\<lambda>acc d. pushDiagnostic d acc) m ds"

fun resultsLoop ::
  "(string option \<rightharpoonup> SarifRule) \<Rightarrow> SarifResultItem list \<Rightarrow> diagnosticsByUri
     \<Rightarrow> js_error + diagnosticsByUri" where
  "resultsLoop rls [] m = Inr m"
| "resultsLoop rls (item # items) m =
     (case createDiagnosticsForResult item rls of
        Inl e \<Rightarrow> Inl e
      | Inr ds \<Rightarrow> resultsLoop rls items (pushAll ds m))"

definition runRules :: "SarifRun \<Rightarrow> (string option \<rightharpoonup> SarifRule)" where
  "runRules run =
     rulesMap (case tool run of None \<Rightarrow> []
               | Some t \<Rightarrow> (case driver t of None \<Rightarrow> []
                           | Some d \<Rightarrow> (case rules d of None \<Rightarrow> [] | Some rs \<Rightarrow> rs)))"

fun runsLoop :: "SarifRun list \<Rightarrow> diagnosticsByUri \<Rightarrow> js_error + diagnosticsByUri" where
  "runsLoop [] m = Inr m"
| "runsLoop (run # rest) m =
     (case resultsLoop (runRules run) (case results run of None \<Rightarrow> [] | Some is \<Rightarrow> is) m of
        Inl e \<Rightarrow> Inl e
      | Inr m' \<Rightarrow> runsLoop rest m')"

text \<open>
  The diagnostic collection keeps one list of diagnostics per resource, in insertion
  order. \<^verbatim>\<open>collection.set(uri, diagnostics)\<close> replaces the list of a resource it already
  holds. The resource of a path is \<^verbatim>\<open>vscode.Uri.file(path)\<close> as the collection compares
  it; it depends on the platform and is the parameter \<open>uri_file\<close>.
\<close>

fun collection_set ::
  "'k \<Rightarrow> Diagnostic list \<Rightarrow> ('k \<times> Diagnostic list) list \<Rightarrow> ('k \<times> Diagnostic list) list" where
  "collection_set k ds [] = [(k, ds)]"
| "collection_set k ds ((k', ds') # c) =
     (if k' = k then (k', ds) # c else (k', ds') # collection_set k ds c)"

text \<open>
  \<^verbatim>\<open>updateDiagnostics(result)\<close> on the diagnostic collection. The collection is cleared
  first; an exception thrown while the report is read leaves it cleared. Lines 32 to 35
  set the list of every key of \<^verbatim>\<open>diagnosticsByUri\<close>, in order.
\<close>

definition updateDiagnostics ::
  "(string \<Rightarrow> 'k) \<Rightarrow> SarifResult \<Rightarrow> ('k \<times> Diagnostic list) list
     \<Rightarrow> js_error option \<times> ('k \<times> Diagnostic list) list" where
  "updateDiagnostics uri_file result collection =
     (case runsLoop (case runs result of None \<Rightarrow> [] | Some rs \<Rightarrow> rs) [] of
        Inl e \<Rightarrow> (Some e, [])
      | Inr m \<Rightarrow> (None, foldl (\<lambda>c (u, ds). collection_set (uri_file u) ds c) [] m))"


definition item_locations :: "SarifResultItem \<Rightarrow> SarifLocation list" where
  "item_locations item = (case locations item of None \<Rightarrow> [] | Some ls \<Rightarrow> ls)"

definition uri_locations :: "SarifResultItem \<Rightarrow> SarifLocation list" where
  "uri_locations item = filter (\<lambda>l. js_truthy (location_uri l)) (item_locations item)"




text \<open>
  The one-based number the code resolves for a field of the region: the field, or the
  default when the region or the field is absent or the field is 0. \<open>region_safe\<close> says
  that the numbers present are not negative and below \<open>2 ^ 53\<close>, the range in which the
  constructors do not throw and the arithmetic on doubles is exact.
\<close>

definition field_value :: "sarif_region option \<Rightarrow> (sarif_region \<Rightarrow> int option) \<Rightarrow> int \<Rightarrow> int" where
  "field_value r f d =
     (case r of None \<Rightarrow> d
      | Some g \<Rightarrow> (case f g of None \<Rightarrow> d | Some v \<Rightarrow> if v = 0 then d else v))"

definition field_safe :: "int option \<Rightarrow> bool" where
  "field_safe x = (case x of None \<Rightarrow> True | Some v \<Rightarrow> 0 \<le> v \<and> v < 2 ^ 53)"

definition region_safe :: "sarif_region option \<Rightarrow> bool" where
  "region_safe r =
     (case r of None \<Rightarrow> True
      | Some g \<Rightarrow> field_safe (startLine g) \<and> field_safe (startColumn g)
                  \<and> field_safe (endLine g) \<and> field_safe (endColumn g))"

text \<open>
  A condition under which nothing throws while a result is turned into diagnostics: the
  result has no location that passes line 46, or it has a \<^verbatim>\<open>message\<close> object, one of
  message text, rule description and rule id is a non-empty string, and the regions of its
  locations are safe. \<open>report_safe\<close> asks this of every result of every run.
\<close>

definition item_safe :: "(string option \<rightharpoonup> SarifRule) \<Rightarrow> SarifResultItem \<Rightarrow> bool" where
  "item_safe rls item =
     (uri_locations item = []
      \<or> ((case message item of
             None \<Rightarrow> False
           | Some m \<Rightarrow> js_truthy (text m) \<or> js_truthy (rule_short_text (rls (ruleId item)))
                        \<or> js_truthy (ruleId item))
          \<and> list_all (\<lambda>l. region_safe (location_region l)) (uri_locations item)))"


text \<open>The range that holds two positions given by one-based numbers, in order.\<close>

definition ordered_range :: "int \<Rightarrow> int \<Rightarrow> int \<Rightarrow> int \<Rightarrow> vscode_Range" where
  "ordered_range sl sc el ec =
     (if sl < el \<or> (sl = el \<and> sc < ec)
      then \<lparr> range_startLine = Number (sl - 1), range_startCharacter = Number (sc - 1),
             range_endLine = Number (el - 1), range_endCharacter = Number (ec - 1) \<rparr>
      else \<lparr> range_startLine = Number (el - 1), range_startCharacter = Number (ec - 1),
             range_endLine = Number (sl - 1), range_endCharacter = Number (sc - 1) \<rparr>)"

section \<open>VS Code: scanService.ts and extension.ts\<close>

text \<open>
  \<^verbatim>\<open>JSON.parse\<close> belongs to the host; it is a parameter \<open>json_parse\<close>, \<open>Inl e\<close> for the
  exception it throws on text that is not JSON (\<open>e\<close> its rendering).
  \<^verbatim>\<open>result.runs?.[0]?.results?.length || 0\<close> is the count written to the log and the
  status bar.
\<close>

definition firstRunCount :: "SarifResult \<Rightarrow> nat" where
  "firstRunCount result =
     (case runs result of
        None \<Rightarrow> 0
      | Some [] \<Rightarrow> 0
      | Some (run # rest) \<Rightarrow> (case results run of None \<Rightarrow> 0 | Some is \<Rightarrow> length is))"

text \<open>
  The \<^verbatim>\<open>close\<close> handler of \<^verbatim>\<open>runScan\<close>: the lines appended to the output channel and
  the value the promise resolves to (\<open>None\<close> is \<^verbatim>\<open>null\<close>). The exit code is \<^verbatim>\<open>null\<close>
  when the process was killed by a signal.
\<close>

definition exitCodeText :: "int option \<Rightarrow> string" where
  "exitCodeText code = (case code of None \<Rightarrow> ''null'' | Some c \<Rightarrow> string_of_int c)"

definition runScan_close ::
  "(string \<Rightarrow> string + SarifResult) \<Rightarrow> string \<Rightarrow> string \<Rightarrow> int option
     \<Rightarrow> string list \<times> SarifResult option" where
  "runScan_close json_parse stdout stderr code =
     (let log1 = (if stderr \<noteq> [] then [''stderr: '' @ stderr] else [])
      in if code = Some 0 \<or> code = Some 1 then
           (case json_parse stdout of
              Inr result \<Rightarrow>
                (log1 @ [''Scan completed: '' @ string_of_nat (firstRunCount result) @ '' findings''],
                 Some result)
            | Inl e \<Rightarrow> (log1 @ [''Failed to parse scan results: '' @ e], None))
         else (log1 @ [''Scan failed with exit code: '' @ exitCodeText code], None))"

record 'k extension_state =
  diagnosticCollection :: "('k \<times> Diagnostic list) list"
  statusBarText :: string
  outputChannel :: "string list"

definition issueStatus :: "nat \<Rightarrow> string" where
  "issueStatus count =
     (if count > 0
      then ''$(warning) BlockSecOps: '' @ string_of_nat count @ '' issue'' @ (if count \<noteq> 1 then ''s'' else [])
      else ''$(check) BlockSecOps'')"

text \<open>
  \<^verbatim>\<open>scanCurrentFile\<close> from the point where the awaited scan has resolved to \<open>scanned\<close>.
  An exception of \<^verbatim>\<open>updateDiagnostics\<close> lands in the \<^verbatim>\<open>catch\<close> block, which logs its
  rendering.
\<close>

definition scanCurrentFile ::
  "(string \<Rightarrow> 'k) \<Rightarrow> SarifResult option \<Rightarrow> 'k extension_state \<Rightarrow> 'k extension_state" where
  "scanCurrentFile uri_file scanned st =
     (case scanned of
        None \<Rightarrow> st\<lparr> statusBarText := ''$(error) BlockSecOps'' \<rparr>
      | Some result \<Rightarrow>
          (case updateDiagnostics uri_file result (diagnosticCollection st) of
             (None, coll) \<Rightarrow>
               st\<lparr> diagnosticCollection := coll, statusBarText := issueStatus (firstRunCount result) \<rparr>
           | (Some e, coll) \<Rightarrow>
               st\<lparr> diagnosticCollection := coll, statusBarText := ''$(error) BlockSecOps'',
                   outputChannel := outputChannel st @ [''Scan error: '' @ error_text e] \<rparr>))"

text \<open>A whole file scan: the process closes, the promise resolves, the result is shown.\<close>

definition scanFile_completed ::
  "(string \<Rightarrow> 'k) \<Rightarrow> (string \<Rightarrow> string + SarifResult) \<Rightarrow> string \<Rightarrow> string \<Rightarrow> int option
     \<Rightarrow> 'k extension_state \<Rightarrow> 'k extension_state" where
  "scanFile_completed uri_file json_parse stdout stderr code st =
     (case runScan_close json_parse stdout stderr code of
        (lines, scanned) \<Rightarrow>
          scanCurrentFile uri_file scanned (st\<lparr> outputChannel := outputChannel st @ lines \<rparr>))"

section \<open>Neovim: blocksecops.lua\<close>

record lua_finding =
  filename :: string
  lnum :: int
  col :: int
  end_lnum :: "int option"
  level_f :: string
  message_f :: string
  rule_id :: string

datatype nvim_severity = severity_ERROR | severity_WARN | severity_INFO | severity_HINT

datatype nvim_log_level = levels_INFO | levels_WARN | levels_ERROR

record nvim_diagnostic =
  bufnr_d :: nat
  lnum_d :: int
  col_d :: int
  end_lnum_d :: "int option"
  severity_d :: nvim_severity
  source_d :: string
  message_d :: string
  code_d :: string

text \<open>\<^verbatim>\<open>severity_map[level] or vim.diagnostic.severity.HINT\<close>; indexing with \<^verbatim>\<open>nil\<close> yields \<^verbatim>\<open>nil\<close>.\<close>

definition get_severity :: "string option \<Rightarrow> nvim_severity" where
  "get_severity lv =
     (case (if lv = Some ''error'' then Some severity_ERROR
            else if lv = Some ''warning'' then Some severity_WARN
            else if lv = Some ''note'' then Some severity_INFO
            else None) of
        Some s \<Rightarrow> s
      | None \<Rightarrow> severity_HINT)"

text \<open>\<^verbatim>\<open>x or d\<close>: only \<^verbatim>\<open>nil\<close> is replaced (in Lua \<^verbatim>\<open>0\<close> and \<^verbatim>\<open>""\<close> are true).\<close>

definition lua_or :: "'a option \<Rightarrow> 'a \<Rightarrow> 'a" where
  "lua_or x d = (case x of None \<Rightarrow> d | Some v \<Rightarrow> v)"

text \<open>
  \<^verbatim>\<open>parse_finding\<close>, in two parts: \<open>artifact_file\<close> is the \<^verbatim>\<open>file\<close> of lines 218 to
  222, \<open>finding_table\<close> the table built from line 229 on.
\<close>

definition artifact_file :: "sarif_physicalLocation \<Rightarrow> string" where
  "artifact_file phys =
     (case artifactLocation phys of
        None \<Rightarrow> []
      | Some a \<Rightarrow> (case uri a of None \<Rightarrow> [] | Some u \<Rightarrow> lua_gsub_file_prefix u))"

definition finding_table :: "SarifResultItem \<Rightarrow> sarif_physicalLocation \<Rightarrow> lua_finding" where
  "finding_table result phys =
     \<lparr> filename = artifact_file phys,
       lnum = (case region phys of None \<Rightarrow> 1 | Some r \<Rightarrow> lua_or (startLine r) 1),
       col = (case region phys of None \<Rightarrow> 1 | Some r \<Rightarrow> lua_or (startColumn r) 1),
       end_lnum = (case region phys of None \<Rightarrow> None | Some r \<Rightarrow> endLine r),
       level_f = lua_or (level result) ''warning'',
       message_f = (case message result of None \<Rightarrow> [] | Some m \<Rightarrow> lua_or (text m) []),
       rule_id = lua_or (ruleId result) ''unknown'' \<rparr>"

definition parse_finding :: "SarifResultItem \<Rightarrow> string option \<Rightarrow> lua_finding option" where
  "parse_finding result filter_file =
     (case locations result of
        None \<Rightarrow> None
      | Some [] \<Rightarrow> None
      | Some (location # others) \<Rightarrow>
          (case physicalLocation location of
             None \<Rightarrow> None
           | Some phys \<Rightarrow>
               if filter_file \<noteq> None \<and> Some (artifact_file phys) \<noteq> filter_file then None
               else Some (finding_table result phys)))"

text \<open>The two nested \<^verbatim>\<open>ipairs\<close> loops of \<^verbatim>\<open>parse_sarif\<close>, appending to \<open>findings\<close>.\<close>

fun parse_results :: "SarifResultItem list \<Rightarrow> string option \<Rightarrow> lua_finding list \<Rightarrow> lua_finding list" where
  "parse_results [] filter_file findings = findings"
| "parse_results (result # rest) filter_file findings =
     (case parse_finding result filter_file of
        None \<Rightarrow> parse_results rest filter_file findings
      | Some finding \<Rightarrow> parse_results rest filter_file (findings @ [finding]))"

fun parse_runs :: "SarifRun list \<Rightarrow> string option \<Rightarrow> lua_finding list \<Rightarrow> lua_finding list" where
  "parse_runs [] filter_file findings = findings"
| "parse_runs (run # rest) filter_file findings =
     (case results run of
        None \<Rightarrow> parse_runs rest filter_file findings
      | Some rs \<Rightarrow> parse_runs rest filter_file (parse_results rs filter_file findings))"

text \<open>
  \<^verbatim>\<open>parse_sarif(sarif_json, filter_bufnr)\<close>. \<open>json_decode\<close> stands for
  \<^verbatim>\<open>pcall(vim.json.decode, ...)\<close>: \<open>None\<close> when the call fails, and \<open>buf_get_name\<close> for
  \<^verbatim>\<open>vim.api.nvim_buf_get_name\<close>.
\<close>

definition parse_sarif ::
  "(string \<Rightarrow> SarifResult option) \<Rightarrow> (nat \<Rightarrow> string) \<Rightarrow> string \<Rightarrow> nat option \<Rightarrow> lua_finding list" where
  "parse_sarif json_decode buf_get_name sarif_json filter_bufnr =
     (case json_decode sarif_json of
        None \<Rightarrow> []
      | Some sarif \<Rightarrow>
          (case runs sarif of
             None \<Rightarrow> []
           | Some rs \<Rightarrow>
               parse_runs rs (case filter_bufnr of None \<Rightarrow> None | Some b \<Rightarrow> Some (buf_get_name b)) []))"

text \<open>
  The editor state the plugin writes: the diagnostics of namespace \<^verbatim>\<open>blocksecops\<close> per
  buffer, and the notifications shown.
\<close>

record nvim_state =
  diagnostics :: "nat \<Rightarrow> nvim_diagnostic list"
  notifications :: "(string \<times> nvim_log_level) list"

definition notify :: "string \<Rightarrow> nvim_log_level \<Rightarrow> nvim_state \<Rightarrow> nvim_state" where
  "notify msg lv st = st\<lparr> notifications := notifications st @ [(msg, lv)] \<rparr>"

text \<open>\<^verbatim>\<open>vim.diagnostic.reset(ns_id)\<close>: every buffer of the namespace.\<close>

definition clear_diagnostics :: "nvim_state \<Rightarrow> nvim_state" where
  "clear_diagnostics st = st\<lparr> diagnostics := (\<lambda>b. []) \<rparr>"

definition to_diagnostic :: "nat \<Rightarrow> lua_finding \<Rightarrow> nvim_diagnostic" where
  "to_diagnostic bufnr finding =
     \<lparr> bufnr_d = bufnr,
       lnum_d = lnum finding - 1,
       col_d = col finding - 1,
       end_lnum_d = (case end_lnum finding of None \<Rightarrow> None | Some e \<Rightarrow> Some (e - 1)),
       severity_d = get_severity (Some (level_f finding)),
       source_d = ''blocksecops'',
       message_d = message_f finding,
       code_d = rule_id finding \<rparr>"

definition process_results ::
  "(string \<Rightarrow> SarifResult option) \<Rightarrow> (nat \<Rightarrow> string) \<Rightarrow> string \<Rightarrow> nat \<Rightarrow> nvim_state \<Rightarrow> nvim_state" where
  "process_results json_decode buf_get_name sarif_json bufnr st =
     (let st1 = clear_diagnostics st;
          findings = parse_sarif json_decode buf_get_name sarif_json (Some bufnr)
      in if length findings = 0 then notify ''BlockSecOps: No issues found'' levels_INFO st1
         else notify (''BlockSecOps: '' @ string_of_nat (length findings) @ '' issue(s) found'') levels_WARN
                (st1\<lparr> diagnostics := (diagnostics st1)(bufnr := map (to_diagnostic bufnr) findings) \<rparr>))"

text \<open>\<^verbatim>\<open>table.concat(data, "\n")\<close>.\<close>

fun table_concat :: "string list \<Rightarrow> string \<Rightarrow> string" where
  "table_concat [] sep = []"
| "table_concat [x] sep = x"
| "table_concat (x # y # ys) sep = x @ sep @ table_concat (y # ys) sep"

text \<open>
  The two callbacks \<^verbatim>\<open>scan_current_file\<close> registers with \<^verbatim>\<open>jobstart\<close>. \<open>data\<close> is the
  list of lines Neovim passes (\<open>None\<close> for \<^verbatim>\<open>nil\<close>); the scheduled function bodies are run
  at once.
\<close>

definition on_stdout ::
  "(string \<Rightarrow> SarifResult option) \<Rightarrow> (nat \<Rightarrow> string) \<Rightarrow> nat \<Rightarrow> string list option
     \<Rightarrow> nvim_state \<Rightarrow> nvim_state" where
  "on_stdout json_decode buf_get_name bufnr data st =
     (case data of
        None \<Rightarrow> st
      | Some lines \<Rightarrow>
          if length lines > 0
          then process_results json_decode buf_get_name (table_concat lines [CHR 0x0A]) bufnr st
          else st)"

definition on_exit :: "int \<Rightarrow> nvim_state \<Rightarrow> nvim_state" where
  "on_exit exit_code st =
     (if exit_code \<noteq> 0 \<and> exit_code \<noteq> 1
      then notify (''BlockSecOps: Scan failed with exit code '' @ string_of_int exit_code) levels_ERROR st
      else st)"

text \<open>
  One finished job of \<^verbatim>\<open>scan_current_file\<close>: Neovim delivers the buffered standard
  output, then the exit code.
\<close>

definition scan_current_file_job ::
  "(string \<Rightarrow> SarifResult option) \<Rightarrow> (nat \<Rightarrow> string) \<Rightarrow> nat \<Rightarrow> string list option \<Rightarrow> int
     \<Rightarrow> nvim_state \<Rightarrow> nvim_state" where
  "scan_current_file_job json_decode buf_get_name bufnr data exit_code st =
     on_exit exit_code (on_stdout json_decode buf_get_name bufnr data st)"

section \<open>IntelliJ: BlockSecOpsExternalAnnotator\<close>

text \<open>The nested class \<^verbatim>\<open>Finding\<close>; its three numbers are Java \<^verbatim>\<open>int\<close>s.\<close>

record Finding =
  ruleId_F :: string
  level_F :: string
  message_F :: string
  startLine_F :: int
  endLine_F :: int
  startColumn_F :: int

text \<open>
  The exception \<^verbatim>\<open>parseFinding\<close> can throw on an object of the modelled shape:
  \<^verbatim>\<open>get("uri")\<close> returns \<^verbatim>\<open>null\<close> for an absent key and \<^verbatim>\<open>getAsString()\<close> is called on it.
\<close>

datatype java_exception = NullPointerException

text \<open>
  \<^verbatim>\<open>getAsInt()\<close> on a JSON integer: the value as a 32-bit Java \<^verbatim>\<open>int\<close>. Gson parses
  the literal as \<^verbatim>\<open>int\<close>, else as \<^verbatim>\<open>long\<close> and casts, else as \<^verbatim>\<open>BigDecimal\<close> and takes
  \<^verbatim>\<open>intValue()\<close>: in every case the low 32 bits, signed.
\<close>

definition java_int :: "int \<Rightarrow> int" where
  "java_int v = (v + 2 ^ 31) mod 2 ^ 32 - 2 ^ 31"

text \<open>
  \<^verbatim>\<open>parseFinding\<close>, in two parts. \<open>newFinding\<close> is what the method reads for the
  constructor call of its last line: rule id, level and message (lines 269 to 275) and the
  region (lines 298 to 305). \<open>parseFinding\<close> adds the early returns in between.
\<close>

definition newFinding :: "SarifResultItem \<Rightarrow> sarif_physicalLocation \<Rightarrow> Finding" where
  "newFinding result phys =
     (let ruleId' = (case ruleId result of Some r \<Rightarrow> r | None \<Rightarrow> ''unknown'');
          level' = (case level result of Some l \<Rightarrow> l | None \<Rightarrow> ''warning'');
          message' = (case message result of
                        None \<Rightarrow> []
                      | Some m \<Rightarrow> (case text m of None \<Rightarrow> [] | Some t \<Rightarrow> t))
      in case region phys of
           None \<Rightarrow>
             \<lparr> ruleId_F = ruleId', level_F = level', message_F = message',
               startLine_F = 1, endLine_F = 1, startColumn_F = 0 \<rparr>
         | Some r \<Rightarrow>
             (let startLine' = (case startLine r of Some v \<Rightarrow> java_int v | None \<Rightarrow> 1)
              in \<lparr> ruleId_F = ruleId', level_F = level', message_F = message',
                   startLine_F = startLine',
                   endLine_F = (case endLine r of Some v \<Rightarrow> java_int v | None \<Rightarrow> startLine'),
                   startColumn_F = (case startColumn r of Some v \<Rightarrow> java_int v | None \<Rightarrow> 0) \<rparr>))"

definition parseFinding :: "SarifResultItem \<Rightarrow> string \<Rightarrow> java_exception + Finding option" where
  "parseFinding result expectedFilePath =
     (case locations result of
        None \<Rightarrow> Inr None
      | Some [] \<Rightarrow> Inr None
      | Some (location # others) \<Rightarrow>
          (case physicalLocation location of
             None \<Rightarrow> Inr None
           | Some phys \<Rightarrow>
               (case artifactLocation phys of
                  None \<Rightarrow> Inr (Some (newFinding result phys))
                | Some a \<Rightarrow>
                    (case uri a of
                       None \<Rightarrow> Inl NullPointerException
                     | Some u \<Rightarrow>
                         (let u' = java_replace file_scheme [] u
                          in if u' \<noteq> expectedFilePath \<and> \<not> endsWith expectedFilePath u'
                             then Inr None
                             else Inr (Some (newFinding result phys)))))))"

text \<open>
  The \<^verbatim>\<open>for\<close> loop of \<^verbatim>\<open>parseFindings\<close>. The whole body sits in one \<^verbatim>\<open>try\<close>, whose
  \<^verbatim>\<open>catch\<close> falls through to \<^verbatim>\<open>return findings\<close>: an exception ends the loop and the
  findings added so far are returned.
\<close>

fun parseResults :: "SarifResultItem list \<Rightarrow> string \<Rightarrow> Finding list \<Rightarrow> Finding list" where
  "parseResults [] filePath findings = findings"
| "parseResults (result # rest) filePath findings =
     (case parseFinding result filePath of
        Inl e \<Rightarrow> findings
      | Inr None \<Rightarrow> parseResults rest filePath findings
      | Inr (Some finding) \<Rightarrow> parseResults rest filePath (findings @ [finding]))"

text \<open>What \<^verbatim>\<open>parseFindings\<close> does with the decoded object: only \<^verbatim>\<open>runs.get(0)\<close> is read.\<close>

definition parseFindings_of :: "SarifResult \<Rightarrow> string \<Rightarrow> Finding list" where
  "parseFindings_of sarif filePath =
     (case runs sarif of
        None \<Rightarrow> []
      | Some [] \<Rightarrow> []
      | Some (run # others) \<Rightarrow>
          (case results run of None \<Rightarrow> [] | Some rs \<Rightarrow> parseResults rs filePath []))"

text \<open>
  \<^verbatim>\<open>parseFindings(sarifJson, filePath)\<close>; \<open>fromJson\<close> stands for
  \<^verbatim>\<open>GSON.fromJson(sarifJson, JsonObject.class)\<close>, \<open>None\<close> when it throws or returns
  \<^verbatim>\<open>null\<close> (both end in the \<^verbatim>\<open>catch\<close> block with nothing added).
\<close>

definition parseFindings :: "(string \<Rightarrow> SarifResult option) \<Rightarrow> string \<Rightarrow> string \<Rightarrow> Finding list" where
  "parseFindings fromJson sarifJson filePath =
     (case fromJson sarifJson of None \<Rightarrow> [] | Some sarif \<Rightarrow> parseFindings_of sarif filePath)"

text \<open>\<^verbatim>\<open>doAnnotate\<close> once the process has ended: \<open>None\<close> is \<^verbatim>\<open>return null\<close>.\<close>

definition doAnnotate ::
  "(string \<Rightarrow> SarifResult option) \<Rightarrow> int \<Rightarrow> string \<Rightarrow> string \<Rightarrow> Finding list option" where
  "doAnnotate fromJson exitCode stdout filePath =
     (if exitCode = 0 \<or> exitCode = 1 then Some (parseFindings fromJson stdout filePath) else None)"

section \<open>IntelliJ: BlockSecOpsScanFileAction\<close>

text \<open>The search key of \<^verbatim>\<open>countFindings\<close>: the six letters between two double quotes.\<close>

definition ruleId_key :: string where
  "ruleId_key = CHR 0x22 # ''ruleId'' @ [CHR 0x22]"

text \<open>
  \<^verbatim>\<open>s.indexOf(pat, from)\<close> for a non-empty \<open>pat\<close>: the first position at or after \<open>from\<close>
  where \<open>pat\<close> starts, \<open>None\<close> for \<^verbatim>\<open>-1\<close>.
\<close>

definition indexOf :: "string \<Rightarrow> string \<Rightarrow> nat \<Rightarrow> nat option" where
  "indexOf s pat from = find (\<lambda>i. prefix pat (drop i s)) [from ..< length s]"

text \<open>The \<^verbatim>\<open>while\<close> loop of \<^verbatim>\<open>countFindings\<close>, on \<open>index\<close> and \<open>count\<close>.\<close>

function countLoop :: "string \<Rightarrow> nat \<Rightarrow> nat \<Rightarrow> nat" where
  "countLoop s index count =
     (case indexOf s ruleId_key index of
        None \<Rightarrow> count
      | Some i \<Rightarrow> countLoop s (i + 1) (count + 1))"
  by pat_completeness auto
termination
proof (relation "measure (\<lambda>(s, index, count). length s - index)")
  show "wf (measure (\<lambda>(s, index, count). length s - index))"
    by simp
next
  fix s :: string and index count i :: nat
  assume "indexOf s ruleId_key index = Some i"
  then have "i \<in> set [index ..< length s]"
    unfolding indexOf_def find_Some_iff by (metis nth_mem)
  then show "((s, i + 1, count + 1), (s, index, count))
               \<in> measure (\<lambda>(s, index, count). length s - index)"
    by auto
qed

declare countLoop.simps [simp del]

definition countFindings :: "string \<Rightarrow> nat" where
  "countFindings sarifOutput = countLoop sarifOutput 0 0"

text \<open>
  The count in the words of the specification: the number of positions of the text at
  which the key occurs. It is compared with \<open>countFindings\<close> below.
\<close>

definition occurrences :: "string \<Rightarrow> string \<Rightarrow> nat" where
  "occurrences key s = length (filter (\<lambda>i. take (length key) (drop i s) = key) [0 ..< length s])"

datatype NotificationType = NotificationType_INFORMATION | NotificationType_WARNING | NotificationType_ERROR

text \<open>
  \<^verbatim>\<open>handleScanResult\<close>: the notification shown, and the text handed to
  \<^verbatim>\<open>resultsService.updateResults\<close> when there is one.
\<close>

record scan_outcome =
  notification :: "string \<times> NotificationType"
  updateResults :: "string option"

definition handleScanResult :: "string \<Rightarrow> int \<Rightarrow> scan_outcome" where
  "handleScanResult output exitCode =
     (if exitCode = 0 then
        \<lparr> notification = (''Scan complete: No issues found'', NotificationType_INFORMATION),
          updateResults = None \<rparr>
      else if exitCode = 1 then
        (let count = countFindings output
         in \<lparr> notification =
                (''Scan complete: '' @ string_of_nat count @ '' issue''
                   @ (if count \<noteq> 1 then ''s'' else []) @ '' found'',
                 NotificationType_WARNING),
              updateResults = Some output \<rparr>)
      else
        \<lparr> notification = (''Scan failed with exit code: '' @ string_of_int exitCode, NotificationType_ERROR),
          updateResults = None \<rparr>)"

section \<open>Vim: the Vim script plugin\<close>

text \<open>The dictionary \<^verbatim>\<open>blocksecops#ParseFinding\<close> returns, a quickfix entry.\<close>

record vim_finding =
  filename_v :: string
  lnum_v :: int
  col_v :: int
  type_v :: string
  text_v :: string
  level_v :: string

text \<open>
  \<^verbatim>\<open>stridx(haystack, needle)\<close>: the index of the first occurrence of \<open>needle\<close>, \<open>-1\<close> when
  there is none.
\<close>

definition stridx :: "string \<Rightarrow> string \<Rightarrow> int" where
  "stridx haystack needle =
     (case find (\<lambda>i. prefix needle (drop i haystack)) [0 ..< Suc (length haystack)] of
        None \<Rightarrow> - 1
      | Some i \<Rightarrow> int i)"

text \<open>\<^verbatim>\<open>substitute(uri, '^file://', '', '')\<close>: a leading occurrence is removed.\<close>

definition substitute_file_prefix :: "string \<Rightarrow> string" where
  "substitute_file_prefix s =
     (if prefix file_scheme s then drop (length file_scheme) s else s)"

text \<open>
  \<^verbatim>\<open>blocksecops#ParseFinding(result, filter_file)\<close>; \<open>None\<close> is the empty dictionary. In
  the filter condition \<^verbatim>\<open>!stridx(...)\<close> is true exactly when \<^verbatim>\<open>stridx\<close> returns 0. String
  comparison is the case-sensitive one of the default settings.
\<close>

definition ParseFinding :: "SarifResultItem \<Rightarrow> string \<Rightarrow> vim_finding option" where
  "ParseFinding result filter_file =
     (case locations result of
        None \<Rightarrow> None
      | Some [] \<Rightarrow> None
      | Some (location # others) \<Rightarrow>
          (case physicalLocation location of
             None \<Rightarrow> None
           | Some phys \<Rightarrow>
               (let file = (case artifactLocation phys of
                              None \<Rightarrow> []
                            | Some a \<Rightarrow> (case uri a of None \<Rightarrow> [] | Some u \<Rightarrow> substitute_file_prefix u))
                in if filter_file \<noteq> [] \<and> file \<noteq> filter_file \<and> stridx filter_file file = 0
                   then None
                   else
                     (let level' = (case level result of None \<Rightarrow> ''warning'' | Some l \<Rightarrow> l);
                          message' = (case message result of
                                        None \<Rightarrow> []
                                      | Some m \<Rightarrow> (case text m of None \<Rightarrow> [] | Some t \<Rightarrow> t));
                          rule_id' = (case ruleId result of None \<Rightarrow> ''unknown'' | Some r \<Rightarrow> r)
                      in Some
                        \<lparr> filename_v = file,
                          lnum_v = (case region phys of
                                      None \<Rightarrow> 1
                                    | Some r \<Rightarrow> (case startLine r of None \<Rightarrow> 1 | Some v \<Rightarrow> v)),
                          col_v = (case region phys of
                                     None \<Rightarrow> 1
                                   | Some r \<Rightarrow> (case startColumn r of None \<Rightarrow> 1 | Some v \<Rightarrow> v)),
                          type_v = (if level' = ''error'' then ''E''
                                    else if level' = ''warning'' then ''W'' else ''I''),
                          text_v = ''['' @ rule_id' @ ''] '' @ message',
                          level_v = (if level' = ''error'' then ''Error''
                                     else if level' = ''warning'' then ''Warning'' else ''Info'') \<rparr>))))"

fun ParseResults :: "SarifResultItem list \<Rightarrow> string \<Rightarrow> vim_finding list \<Rightarrow> vim_finding list" where
  "ParseResults [] filter_file findings = findings"
| "ParseResults (result # rest) filter_file findings =
     (case ParseFinding result filter_file of
        None \<Rightarrow> ParseResults rest filter_file findings
      | Some finding \<Rightarrow> ParseResults rest filter_file (findings @ [finding]))"

fun ParseRuns :: "SarifRun list \<Rightarrow> string \<Rightarrow> vim_finding list \<Rightarrow> vim_finding list" where
  "ParseRuns [] filter_file findings = findings"
| "ParseRuns (run # rest) filter_file findings =
     (case results run of
        None \<Rightarrow> ParseRuns rest filter_file findings
      | Some rs \<Rightarrow> ParseRuns rest filter_file (ParseResults rs filter_file findings))"




section \<open>Sample reports\<close>

definition no_level_result :: SarifResultItem where
  "no_level_result =
     \<lparr> ruleId = Some ''R1'', level = None, message = Some \<lparr> text = Some ''m'' \<rparr>,
       locations = Some [\<lparr> physicalLocation = Some
          \<lparr> artifactLocation = Some \<lparr> uri = Some ''a.sol'' \<rparr>, region = None \<rparr> \<rparr>] \<rparr>"

definition located_result :: "string \<Rightarrow> string \<Rightarrow> SarifResultItem" where
  "located_result rid u =
     \<lparr> ruleId = Some rid, level = Some ''warning'', message = Some \<lparr> text = Some ''finding'' \<rparr>,
       locations = Some [\<lparr> physicalLocation = Some
          \<lparr> artifactLocation = Some \<lparr> uri = Some u \<rparr>,
            region = Some \<lparr> startLine = Some 4, startColumn = Some 2, endLine = None, endColumn = None \<rparr> \<rparr> \<rparr>] \<rparr>"

definition two_file_run :: SarifRun where
  "two_file_run =
     \<lparr> tool = None,
       results = Some [located_result ''R1'' ''file:///w/A.sol'', located_result ''R2'' ''file:///w/B.sol''] \<rparr>"

definition unlocated_result :: SarifResultItem where
  "unlocated_result =
     \<lparr> ruleId = Some ''R1'', level = Some ''error'', message = Some \<lparr> text = Some ''m'' \<rparr>,
       locations = None \<rparr>"

definition shown_diagnostic :: nvim_diagnostic where
  "shown_diagnostic =
     \<lparr> bufnr_d = 1, lnum_d = 9, col_d = 0, end_lnum_d = None, severity_d = severity_ERROR,
       source_d = ''blocksecops'', message_d = ''Reentrancy risk'', code_d = ''REENTRANCY-001'' \<rparr>"

definition shown_state :: nvim_state where
  "shown_state = \<lparr> diagnostics = (\<lambda>b. if b = 1 then [shown_diagnostic] else []), notifications = [] \<rparr>"

text \<open>
  Two raw outputs with the reports they decode to:
  \<^verbatim>\<open>{"runs":[{"tool":{"driver":{"rules":[{"id":"R1"}]}},"results":[{"ruleId":"R1","locations":[{"physicalLocation":{"artifactLocation":{"uri":"/c.sol"}}}]}]}]}\<close>
  and \<^verbatim>\<open>{"runs":[{"results":[{"ruleId":"R1"}]}]}\<close>.
\<close>

definition json_key :: "string \<Rightarrow> string" where
  "json_key k = CHR 0x22 # k @ [CHR 0x22]"

definition ruled_report_text :: string where
  "ruled_report_text =
     ''{'' @ json_key ''runs'' @ '':[{'' @ json_key ''tool'' @ '':{'' @ json_key ''driver'' @ '':{''
       @ json_key ''rules'' @ '':[{'' @ json_key ''id'' @ '':'' @ json_key ''R1'' @ ''}]}},''
       @ json_key ''results'' @ '':[{'' @ json_key ''ruleId'' @ '':'' @ json_key ''R1'' @ '',''
       @ json_key ''locations'' @ '':[{'' @ json_key ''physicalLocation'' @ '':{''
       @ json_key ''artifactLocation'' @ '':{'' @ json_key ''uri'' @ '':'' @ json_key ''/c.sol''
       @ ''}}}]}]}]}''"

definition ruled_report :: SarifResult where
  "ruled_report =
     \<lparr> runs = Some [\<lparr> tool = Some \<lparr> driver = Some \<lparr> rules = Some
                [\<lparr> id_rule = Some ''R1'', shortDescription = None, fullDescription = None \<rparr>] \<rparr> \<rparr>,
              results = Some [\<lparr> ruleId = Some ''R1'', level = None, message = None,
                locations = Some [\<lparr> physicalLocation = Some
                  \<lparr> artifactLocation = Some \<lparr> uri = Some ''/c.sol'' \<rparr>, region = None \<rparr> \<rparr>] \<rparr>] \<rparr>] \<rparr>"

definition unlocated_report_text :: string where
  "unlocated_report_text =
     ''{'' @ json_key ''runs'' @ '':[{'' @ json_key ''results'' @ '':[{'' @ json_key ''ruleId''
       @ '':'' @ json_key ''R1'' @ ''}]}]}''"

definition unlocated_report :: SarifResult where
  "unlocated_report =
     \<lparr> runs = Some [\<lparr> tool = None,
              results = Some [\<lparr> ruleId = Some ''R1'', level = None, message = None, locations = None \<rparr>] \<rparr>] \<rparr>"



definition empty_message_result :: SarifResultItem where
  "empty_message_result =
     \<lparr> ruleId = Some ''REENTRANCY-001'', level = Some ''error'', message = Some \<lparr> text = Some [] \<rparr>,
       locations = Some [\<lparr> physicalLocation = Some
          \<lparr> artifactLocation = Some \<lparr> uri = Some ''file:///c.sol'' \<rparr>,
            region = Some \<lparr> startLine = Some 10, startColumn = None, endLine = None, endColumn = None \<rparr> \<rparr> \<rparr>] \<rparr>"

definition reentrancy_rule :: SarifRule where
  "reentrancy_rule =
     \<lparr> id_rule = Some ''REENTRANCY-001'',
       shortDescription = Some \<lparr> text = Some ''Reentrancy risk'' \<rparr>,
       fullDescription = None \<rparr>"

definition blank_rule :: SarifRule where
  "blank_rule =
     \<lparr> id_rule = Some ''REENTRANCY-001'',
       shortDescription = Some \<lparr> text = Some [] \<rparr>,
       fullDescription = None \<rparr>"

definition blank_result :: SarifResultItem where
  "blank_result = empty_message_result \<lparr> ruleId := Some [] \<rparr>"

definition line_ten_range :: vscode_Range where
  "line_ten_range =
     \<lparr> range_startLine = Number 9, range_startCharacter = Number 0,
       range_endLine = Number 9, range_endCharacter = Number 998 \<rparr>"

definition line_only_result :: SarifResultItem where
  "line_only_result =
     \<lparr> ruleId = Some ''R1'', level = Some ''error'', message = Some \<lparr> text = Some ''m'' \<rparr>,
       locations = Some [\<lparr> physicalLocation = Some
          \<lparr> artifactLocation = Some \<lparr> uri = Some ''file:///c.sol'' \<rparr>,
            region = Some \<lparr> startLine = Some 10, startColumn = None, endLine = None, endColumn = None \<rparr> \<rparr> \<rparr>] \<rparr>"

definition wide_region :: sarif_region where
  "wide_region = \<lparr> startLine = Some 3, startColumn = Some 1500, endLine = Some 5, endColumn = None \<rparr>"

definition wide_result :: SarifResultItem where
  "wide_result =
     \<lparr> ruleId = Some ''R1'', level = Some ''error'', message = Some \<lparr> text = Some ''m'' \<rparr>,
       locations = Some [\<lparr> physicalLocation = Some
          \<lparr> artifactLocation = Some \<lparr> uri = Some ''file:///c.sol'' \<rparr>,
            region = Some wide_region \<rparr> \<rparr>] \<rparr>"








section \<open>Shared lemmas\<close>




lemma endsWith_suffix: "endsWith s suf \<longleftrightarrow> suffix suf s"
  by (simp add: endsWith_def suffix_to_prefix)

lemma parseFinding_Some:
  assumes "parseFinding result path = Inr (Some x)"
  obtains loc others phys where "locations result = Some (loc # others)"
    and "physicalLocation loc = Some phys" and "x = newFinding result phys"
    and "\<And>a. artifactLocation phys = Some a \<Longrightarrow>
           \<exists>u. uri a = Some u \<and> (java_replace file_scheme [] u = path
                                  \<or> endsWith path (java_replace file_scheme [] u))"
  using assms unfolding parseFinding_def Let_def
  by (fastforce split: option.splits list.splits if_splits)

lemma parse_finding_Some:
  assumes "parse_finding result ff = Some x"
  obtains loc others phys where "locations result = Some (loc # others)"
    and "physicalLocation loc = Some phys" and "x = finding_table result phys"
    and "ff = None \<or> ff = Some (artifact_file phys)"
  using assms unfolding parse_finding_def
  by (fastforce split: option.splits list.splits if_splits)

lemma diagnosticForLocation_Some:
  assumes "diagnosticForLocation item rls l = Inr (Some (u, d))"
  obtains v m where "location_uri l = Some v" and "v \<noteq> []"
    and "u = js_replace file_scheme [] v" and "message item = Some m"
    and "resolveRange (location_region l) = Inr (diag_range d)"
    and "resolveMessage item (rls (ruleId item)) = Inr (Some (diag_message d))"
    and "diag_message d \<noteq> []"
    and "diag_severity d = mapSeverity (level item)"
    and "diag_code d = ruleId item"
    and "diag_source d = Some ''blocksecops''"
proof -
  from assms have t: "js_truthy (location_uri l)"
    by (auto simp: diagnosticForLocation_def split: if_splits)
  then obtain v where v: "location_uri l = Some v" "v \<noteq> []"
    by (auto simp: js_truthy_def split: option.splits)
  from assms t obtain rng where rng:
    "resolveRange (location_region l) = Inr rng"
    by (cases "resolveRange (location_region l)")
       (auto simp: diagnosticForLocation_def)
  from assms t rng obtain msg where msg: "resolveMessage item (rls (ruleId item)) = Inr msg"
    by (cases "resolveMessage item (rls (ruleId item))") (auto simp: diagnosticForLocation_def)
  then obtain m where m: "message item = Some m"
    by (cases "message item") (auto simp: resolveMessage_def)
  from assms t rng msg obtain dg where dg: "newDiagnostic rng msg (mapSeverity (level item)) = Inr dg"
    by (cases "newDiagnostic rng msg (mapSeverity (level item))") (auto simp: diagnosticForLocation_def)
  then obtain body where body: "msg = Some body" "body \<noteq> []"
      "dg = \<lparr> diag_range = rng, diag_message = body, diag_severity = mapSeverity (level item),
              diag_source = None, diag_code = None \<rparr>"
    by (auto simp: newDiagnostic_def split: option.splits if_splits)
  from assms t rng msg dg v have ud: "u = js_replace file_scheme [] v"
      "d = dg\<lparr> diag_source := Some ''blocksecops'', diag_code := ruleId item \<rparr>"
    by (auto simp: diagnosticForLocation_def)
  show ?thesis
    using that [OF v ud(1) m] rng msg body ud(2) by simp
qed

lemma rulesMap_Some: "rulesMap rs k = Some r \<Longrightarrow> r \<in> set rs \<and> id_rule r = k"
  unfolding rulesMap_def by (auto dest!: map_of_SomeD)

lemma rulesMap_None: "rulesMap rs k = None \<longleftrightarrow> k \<notin> id_rule ` set rs"
  unfolding rulesMap_def by (simp add: map_of_eq_None_iff image_image)

subsection \<open>The diagnostics of a report\<close>

text \<open>
  The lemmas below follow \<^verbatim>\<open>updateDiagnostics\<close> from the inside out: the numbers of a region
  as doubles, the range of one location, the loop over the locations of a result, the grouping
  of the diagnostics by file, and the collection the groups are written to.
\<close>

lemma bit_length_le: "n < 2 ^ k \<Longrightarrow> bit_length n \<le> k"
proof (induction n arbitrary: k rule: bit_length.induct)
  case (1 n)
  show ?case
  proof (cases "n = 0")
    case True
    then show ?thesis by (simp add: bit_length.simps)
  next
    case False
    with "1.prems" obtain j where k: "k = Suc j" by (cases k) auto
    with "1.prems" have "n div 2 < 2 ^ j" by simp
    from "1.IH" [OF False this] False k show ?thesis
      by (subst bit_length.simps) simp
  qed
qed

lemma round_to_double_small: "\<bar>v\<bar> < 2 ^ 53 \<Longrightarrow> round_to_double v = v"
proof -
  assume a: "\<bar>v\<bar> < 2 ^ 53"
  then have "nat \<bar>v\<bar> < 2 ^ 53"
    by (simp add: nat_less_iff)
  then have "bit_length (nat \<bar>v\<bar>) \<le> 53" by (rule bit_length_le)
  then show ?thesis by (simp add: round_to_double_def Let_def)
qed

lemma js_number_of_small: "\<bar>v\<bar> < 2 ^ 53 \<Longrightarrow> js_number_of v = Number v"
proof -
  assume a: "\<bar>v\<bar> < 2 ^ 53"
  have "(2::int) ^ 53 \<le> 2 ^ 1024" by (rule power_increasing) simp_all
  with a have "v < 2 ^ 1024" "- (2 ^ 1024) < v" by linarith+
  with round_to_double_small [OF a] show ?thesis
    by (simp add: js_number_of_def Let_def)
qed

lemma js_or_field:
  assumes "region_safe r" and "f = startLine \<or> f = startColumn \<or> f = endLine \<or> f = endColumn"
    and "\<bar>d\<bar> < 2 ^ 53" and "d \<noteq> 0"
  shows "js_num_or (region_field r f) (Number d) = Number (field_value r f d)"
    and "0 \<le> field_value r f d \<or> d < 0" and "field_value r f d < 2 ^ 53" and "field_value r f d \<noteq> 0"
proof -
  have s: "field_safe (case r of None \<Rightarrow> None | Some g \<Rightarrow> f g)"
    using assms(1,2) by (auto simp: region_safe_def field_safe_def split: option.splits)
  show "js_num_or (region_field r f) (Number d) = Number (field_value r f d)"
  proof (cases r)
    case None
    then show ?thesis by (simp add: region_field_def js_num_or_def field_value_def)
  next
    case (Some g)
    show ?thesis
    proof (cases "f g")
      case None
      with Some show ?thesis by (simp add: region_field_def js_num_or_def field_value_def)
    next
      case (Some v)
      with s \<open>r = Some g\<close> have "0 \<le> v" "v < 2 ^ 53" by (simp_all add: field_safe_def)
      then have "js_number_of v = Number v" by (intro js_number_of_small) simp
      with Some \<open>r = Some g\<close> show ?thesis
        by (simp add: region_field_def js_num_or_def field_value_def)
    qed
  qed
  show "0 \<le> field_value r f d \<or> d < 0" "field_value r f d < 2 ^ 53" "field_value r f d \<noteq> 0"
    using s assms(3,4) by (auto simp: field_value_def field_safe_def split: option.splits)
qed

lemma resolveRange_safe:
  assumes "region_safe r"
  shows "resolveRange r =
     Inr (ordered_range (field_value r startLine 1) (field_value r startColumn 1)
            (field_value r endLine (field_value r startLine 1)) (field_value r endColumn 999))"
proof -
  let ?sl = "field_value r startLine 1" and ?sc = "field_value r startColumn 1"
  let ?el = "field_value r endLine (field_value r startLine 1)" and ?ec = "field_value r endColumn 999"
  note sl = js_or_field [OF assms, of startLine 1]
  note sc = js_or_field [OF assms, of startColumn 1]
  note ec = js_or_field [OF assms, of endColumn 999]
  have sl1: "1 \<le> ?sl" "?sl < 2 ^ 53" using sl by auto
  have sc1: "1 \<le> ?sc" "?sc < 2 ^ 53" using sc by auto
  have ec1: "1 \<le> ?ec" "?ec < 2 ^ 53" using ec by auto
  have "\<bar>?sl\<bar> < 2 ^ 53" "?sl \<noteq> 0" using sl1 by auto
  note el = js_or_field [OF assms _ this, of endLine]
  have el1: "1 \<le> ?el" "?el < 2 ^ 53" using el sl1 by auto
  have m: "js_minus_one (Number v) = Number (v - 1)" if "1 \<le> v" "v < 2 ^ 53" for v
    using that by (simp add: js_minus_one_def js_number_of_small)
  have args: "js_minus_one (js_num_or (region_field r startLine) (Number 1)) = Number (?sl - 1)"
    "js_minus_one (js_num_or (region_field r startColumn) (Number 1)) = Number (?sc - 1)"
    "js_minus_one (js_num_or (region_field r endLine) (js_num_or (region_field r startLine) (Number 1)))
       = Number (?el - 1)"
    "js_minus_one (js_num_or (region_field r endColumn) (Number 999)) = Number (?ec - 1)"
    using sl(1) sc(1) ec(1) el(1) m sl1 sc1 ec1 el1 by simp_all
  show ?thesis
    unfolding resolveRange_def args
    using sl1 sc1 el1 ec1
    by (auto simp: newRange_def newPosition_def isBefore_def ordered_range_def)
qed

lemma diagnosticForLocation_None:
  "diagnosticForLocation item rls l = Inr None \<longleftrightarrow> \<not> js_truthy (location_uri l)"
  by (auto simp: diagnosticForLocation_def split: sum.splits)

lemma diagnosticForLocation_safe:
  assumes "location_uri l = Some v" and "v \<noteq> []" and "message item = Some m"
    and "region_safe (location_region l)"
    and "js_truthy (text m) \<or> js_truthy (rule_short_text (rls (ruleId item))) \<or> js_truthy (ruleId item)"
  shows "\<exists>d. diagnosticForLocation item rls l = Inr (Some (js_replace file_scheme [] v, d))"
proof -
  let ?msg = "if js_truthy (text m) then text m
              else if js_truthy (rule_short_text (rls (ruleId item)))
                   then rule_short_text (rls (ruleId item))
                   else ruleId item"
  have "js_truthy ?msg" using assms(5) by auto
  then obtain body where b: "?msg = Some body" "body \<noteq> []"
    by (cases ?msg) (auto simp: js_truthy_def)
  have "resolveMessage item (rls (ruleId item)) = Inr ?msg"
    using assms(3) by (simp add: resolveMessage_def)
  with b have body: "resolveMessage item (rls (ruleId item)) = Inr (Some body)" "body \<noteq> []"
    by simp_all
  with assms(1,2) resolveRange_safe [OF assms(4)] show ?thesis
    by (simp add: diagnosticForLocation_def js_truthy_def newDiagnostic_def)
qed

lemma locationsLoop_all2:
  "locationsLoop item rls ls = Inr ds \<Longrightarrow>
     list_all2 (\<lambda>l p. diagnosticForLocation item rls l = Inr (Some p))
       (filter (\<lambda>l. js_truthy (location_uri l)) ls) ds"
proof (induction ls arbitrary: ds)
  case Nil
  then show ?case by simp
next
  case (Cons l ls)
  show ?case
  proof (cases "diagnosticForLocation item rls l")
    case (Inl e)
    with Cons.prems show ?thesis by simp
  next
    case (Inr r)
    show ?thesis
    proof (cases r)
      case None
      with Inr have "\<not> js_truthy (location_uri l)" by (simp add: diagnosticForLocation_None)
      with None Inr Cons show ?thesis by simp
    next
      case (Some p)
      with Inr have t: "js_truthy (location_uri l)"
        using diagnosticForLocation_None [of item rls l] by auto
      from Some Inr Cons.prems obtain ds' where ds': "locationsLoop item rls ls = Inr ds'" "ds = p # ds'"
        by (auto split: sum.splits)
      with Cons.IH [OF ds'(1)] Inr Some t show ?thesis by simp
    qed
  qed
qed

lemma createDiagnostics_all2:
  "createDiagnosticsForResult item rls = Inr ds \<Longrightarrow>
     list_all2 (\<lambda>l p. diagnosticForLocation item rls l = Inr (Some p)) (uri_locations item) ds"
  unfolding createDiagnosticsForResult_def uri_locations_def item_locations_def
  by (rule locationsLoop_all2)

lemma locationsLoop_total:
  "(\<And>l. l \<in> set ls \<Longrightarrow> js_truthy (location_uri l) \<Longrightarrow> \<exists>p. diagnosticForLocation item rls l = Inr (Some p))
     \<Longrightarrow> \<exists>ds. locationsLoop item rls ls = Inr ds"
proof (induction ls)
  case Nil
  then show ?case by simp
next
  case (Cons l ls)
  then obtain ds where ds: "locationsLoop item rls ls = Inr ds" by auto
  show ?case
  proof (cases "js_truthy (location_uri l)")
    case True
    with Cons.prems [of l] obtain p where "diagnosticForLocation item rls l = Inr (Some p)" by auto
    with ds show ?thesis by simp
  next
    case False
    then have "diagnosticForLocation item rls l = Inr None" by (simp add: diagnosticForLocation_None)
    with ds show ?thesis by simp
  qed
qed

lemma createDiagnostics_total:
  assumes "\<And>l. l \<in> set (uri_locations item) \<Longrightarrow> \<exists>p. diagnosticForLocation item rls l = Inr (Some p)"
  shows "\<exists>ds. createDiagnosticsForResult item rls = Inr ds"
  unfolding createDiagnosticsForResult_def
  by (rule locationsLoop_total) (use assms in \<open>auto simp: uri_locations_def item_locations_def\<close>)





















lemma createDiagnostics_safe:
  assumes "item_safe rls item"
  shows "\<exists>ds. createDiagnosticsForResult item rls = Inr ds"
proof (rule createDiagnostics_total)
  fix l assume l: "l \<in> set (uri_locations item)"
  then have ne: "uri_locations item \<noteq> []" by auto
  with assms obtain m where m: "message item = Some m"
      "js_truthy (text m) \<or> js_truthy (rule_short_text (rls (ruleId item))) \<or> js_truthy (ruleId item)"
    and rs: "list_all (\<lambda>l. region_safe (location_region l)) (uri_locations item)"
    by (auto simp: item_safe_def split: option.splits)
  from l obtain v where v: "location_uri l = Some v" "v \<noteq> []"
    by (auto simp: uri_locations_def js_truthy_def split: option.splits)
  from rs l have "region_safe (location_region l)" by (simp add: list_all_iff)
  with diagnosticForLocation_safe [of l v item m rls] v m
  show "\<exists>p. diagnosticForLocation item rls l = Inr (Some p)" by blast
qed










lemma locationsLoop_first_error:
  "filter (\<lambda>l. js_truthy (location_uri l)) ls = l # rest
     \<Longrightarrow> diagnosticForLocation item rls l = Inl e
     \<Longrightarrow> locationsLoop item rls ls = Inl e"
proof (induction ls)
  case Nil
  then show ?case by simp
next
  case (Cons a ls)
  show ?case
  proof (cases "js_truthy (location_uri a)")
    case True
    with Cons.prems(1) have "a = l" by simp
    with Cons.prems(2) show ?thesis by simp
  next
    case False
    then have "diagnosticForLocation item rls a = Inr None"
      by (simp add: diagnosticForLocation_None)
    moreover from False Cons have "locationsLoop item rls ls = Inl e" by simp
    ultimately show ?thesis by simp
  qed
qed

lemma createDiagnostics_first_error:
  assumes "uri_locations item = l # rest" and "diagnosticForLocation item rls l = Inl e"
  shows "createDiagnosticsForResult item rls = Inl e"
  unfolding createDiagnosticsForResult_def
  using assms(1) [unfolded uri_locations_def item_locations_def] assms(2)
  by (rule locationsLoop_first_error)

lemma diagnosticForLocation_message_error:
  assumes "js_truthy (location_uri l)" and "region_safe (location_region l)"
    and "resolveMessage item (rls (ruleId item)) = Inr msg" and "\<not> js_truthy msg"
  shows "diagnosticForLocation item rls l = Inl (TypeError ''message must be set'')"
proof -
  from assms(4) have "newDiagnostic rng msg sev = Inl (TypeError ''message must be set'')" for rng sev
    by (auto simp: newDiagnostic_def js_truthy_def split: option.splits)
  with assms(1,3) resolveRange_safe [OF assms(2)] show ?thesis
    by (simp add: diagnosticForLocation_def)
qed

lemma diagnosticForLocation_no_message:
  assumes "js_truthy (location_uri l)" and "region_safe (location_region l)"
    and "message item = None"
  shows "\<exists>s. diagnosticForLocation item rls l = Inl (TypeError s)"
  using assms(1,3) resolveRange_safe [OF assms(2)]
  by (simp add: diagnosticForLocation_def resolveMessage_def)

lemma createDiagnostics_message:
  assumes "createDiagnosticsForResult item rls = Inr ds" and "p \<in> set ds"
  shows "\<exists>m. message item = Some m
         \<and> (if js_truthy (text m) then text m
              else if js_truthy (rule_short_text (rls (ruleId item)))
                   then rule_short_text (rls (ruleId item))
                   else ruleId item) = Some (diag_message (snd p))"
proof -
  from assms(2) obtain i where i: "i < length ds" "ds ! i = p" by (auto simp: in_set_conv_nth)
  note a = createDiagnostics_all2 [OF assms(1)]
  from list_all2_lengthD [OF a] i(1) have "i < length (uri_locations item)" by simp
  from list_all2_nthD [OF a this] i(2)
  have d: "diagnosticForLocation item rls (uri_locations item ! i) = Inr (Some p)" by simp
  obtain u dg where p: "p = (u, dg)" by (cases p)
  from d [unfolded p] obtain m where "message item = Some m"
    and "resolveMessage item (rls (ruleId item)) = Inr (Some (diag_message dg))"
    by (rule diagnosticForLocation_Some)
  then show ?thesis by (simp add: p resolveMessage_def)
qed

lemma createDiagnostics_range:
  assumes "createDiagnosticsForResult item rls = Inr ds"
  shows "list_all2 (\<lambda>l p. region_safe (location_region l) \<longrightarrow>
          diag_range (snd p) =
            ordered_range (field_value (location_region l) startLine 1)
              (field_value (location_region l) startColumn 1)
              (field_value (location_region l) endLine (field_value (location_region l) startLine 1))
              (field_value (location_region l) endColumn 999))
        (uri_locations item) ds"
proof (rule list_all2_mono [OF createDiagnostics_all2 [OF assms]], rule impI)
  fix l p assume h: "diagnosticForLocation item rls l = Inr (Some p)"
    and s: "region_safe (location_region l)"
  obtain u dg where p: "p = (u, dg)" by (cases p)
  from h [unfolded p] have "resolveRange (location_region l) = Inr (diag_range dg)"
    by (rule diagnosticForLocation_Some)
  with resolveRange_safe [OF s] show "diag_range (snd p) =
            ordered_range (field_value (location_region l) startLine 1)
              (field_value (location_region l) startColumn 1)
              (field_value (location_region l) endLine (field_value (location_region l) startLine 1))
              (field_value (location_region l) endColumn 999)"
    by (simp add: p)
qed

lemma parseFinding_region:
  assumes "parseFinding result path = Inr (Some x)" and "locations result = Some (loc # others)"
    and "physicalLocation loc = Some phys"
  shows "startLine_F x = (case region phys of None \<Rightarrow> 1
                            | Some g \<Rightarrow> (case startLine g of None \<Rightarrow> 1 | Some v \<Rightarrow> java_int v))"
    and "endLine_F x = (case region phys of None \<Rightarrow> 1
                          | Some g \<Rightarrow> (case endLine g of None \<Rightarrow> startLine_F x | Some v \<Rightarrow> java_int v))"
    and "startColumn_F x = (case region phys of None \<Rightarrow> 0
                              | Some g \<Rightarrow> (case startColumn g of None \<Rightarrow> 0 | Some v \<Rightarrow> java_int v))"
proof -
  from assms have x: "x = newFinding result phys"
    by (elim parseFinding_Some) simp
  show "startLine_F x = (case region phys of None \<Rightarrow> 1
                            | Some g \<Rightarrow> (case startLine g of None \<Rightarrow> 1 | Some v \<Rightarrow> java_int v))"
    by (simp add: x newFinding_def Let_def split: option.splits)
  show "endLine_F x = (case region phys of None \<Rightarrow> 1
                          | Some g \<Rightarrow> (case endLine g of None \<Rightarrow> startLine_F x | Some v \<Rightarrow> java_int v))"
    by (simp add: x newFinding_def Let_def split: option.splits)
  show "startColumn_F x = (case region phys of None \<Rightarrow> 0
                              | Some g \<Rightarrow> (case startColumn g of None \<Rightarrow> 0 | Some v \<Rightarrow> java_int v))"
    by (simp add: x newFinding_def Let_def split: option.splits)
qed

section \<open>Severity mapping\<close>

text \<open>
  Against C3 as stated: a result without \<^verbatim>\<open>level\<close> that goes through the Lua
  \<^verbatim>\<open>parse_finding\<close> and \<^verbatim>\<open>process_results\<close> is shown with severity \<open>WARN\<close>, not with
  the lowest severity \<open>HINT\<close>: \<^verbatim>\<open>result.level or "warning"\<close> fills the level in first.
\<close>

theorem absent_level_counterexample:
  "map severity_d (map (to_diagnostic 0) (parse_results [no_level_result] None [])) = [severity_WARN]
   \<and> severity_WARN \<noteq> severity_HINT"
  by (simp add: no_level_result_def parse_finding_def finding_table_def to_diagnostic_def
      get_severity_def lua_or_def)

text \<open>
  C3 (amended). \<^verbatim>\<open>mapSeverity\<close> (VS Code) and \<^verbatim>\<open>get_severity\<close> (Lua) are total:
  \<^verbatim>\<open>error\<close>, \<^verbatim>\<open>warning\<close> and \<^verbatim>\<open>note\<close> map to Error, Warning and Information, and every
  other argument, the empty string and an absent one included, maps to Hint. A VS Code
  diagnostic carries \<^verbatim>\<open>mapSeverity\<close> of the result's level. A Lua diagnostic carries
  \<^verbatim>\<open>get_severity\<close> of the level when the result has one and Warning when it has none. In
  both, the severity is Error only for the level \<^verbatim>\<open>error\<close>.
\<close>

theorem severity_mapping:
  "mapSeverity lv =
     (if lv = Some ''error'' then Error else if lv = Some ''warning'' then Warning
      else if lv = Some ''note'' then Information else Hint)
   \<and> get_severity lv =
     (if lv = Some ''error'' then severity_ERROR else if lv = Some ''warning'' then severity_WARN
      else if lv = Some ''note'' then severity_INFO else severity_HINT)
   \<and> (diagnosticForLocation item rls l = Inr (Some (u, d)) \<longrightarrow>
        diag_severity d = mapSeverity (level item)
        \<and> (diag_severity d = Error \<longleftrightarrow> level item = Some ''error''))
   \<and> (parse_finding result ff = Some x \<longrightarrow>
        severity_d (to_diagnostic b x) =
          (case level result of None \<Rightarrow> severity_WARN | Some s \<Rightarrow> get_severity (Some s))
        \<and> (severity_d (to_diagnostic b x) = severity_ERROR \<longleftrightarrow> level result = Some ''error''))"
proof -
  have a: "mapSeverity lv =
     (if lv = Some ''error'' then Error else if lv = Some ''warning'' then Warning
      else if lv = Some ''note'' then Information else Hint)" for lv
    by (simp add: mapSeverity_def)
  have b: "get_severity lv =
     (if lv = Some ''error'' then severity_ERROR else if lv = Some ''warning'' then severity_WARN
      else if lv = Some ''note'' then severity_INFO else severity_HINT)" for lv
    by (simp add: get_severity_def)
  have c: "diag_severity d = mapSeverity (level item)
        \<and> (diag_severity d = Error \<longleftrightarrow> level item = Some ''error'')"
    if "diagnosticForLocation item rls l = Inr (Some (u, d))"
    using that by (elim diagnosticForLocation_Some) (simp add: a)
  have d: "severity_d (to_diagnostic b x) =
          (case level result of None \<Rightarrow> severity_WARN | Some s \<Rightarrow> get_severity (Some s))
        \<and> (severity_d (to_diagnostic b x) = severity_ERROR \<longleftrightarrow> level result = Some ''error'')"
    if "parse_finding result ff = Some x"
  proof -
    from that have "level_f x = lua_or (level result) ''warning''"
      by (elim parse_finding_Some) (simp add: finding_table_def)
    then show ?thesis
      by (cases "level result") (auto simp: to_diagnostic_def lua_or_def b)
  qed
  from a b c d show ?thesis by blast
qed

text \<open>
  The mapping at an unknown level, at the empty level, and at a Lua result without level.
\<close>

theorem severity_mapping_witness:
  "get_severity (Some ''unexpected-value'') = severity_HINT
   \<and> mapSeverity (Some []) = Hint
   \<and> (\<exists>x. parse_finding no_level_result None = Some x
          \<and> severity_d (to_diagnostic 0 x) = severity_WARN)"
proof -
  obtain x where x: "parse_finding no_level_result None = Some x"
    by (simp add: no_level_result_def parse_finding_def)
  have "level no_level_result = None"
    by (simp add: no_level_result_def)
  with x severity_mapping [of "Some ''unexpected-value''" _ _ _ _ _ no_level_result None x 0]
    severity_mapping [of "Some []"]
  show ?thesis by simp
qed

section \<open>File filter\<close>

text \<open>
  C2: under a file filter a finding is kept only when its stripped path equals the
  filter path or the filter path ends with it, so that a report on two files filtered by
  the first file's path returns that file's finding alone. This fails in the Vim script:
  \<^verbatim>\<open>blocksecops#ParseFinding\<close> drops a finding of another file only when \<^verbatim>\<open>!stridx(a:filter_file, l:file)\<close> holds, that is when the finding's path
  is found at index 0 of the filter path. For a report with one finding in
  \<^verbatim>\<open>/w/A.sol\<close> and one in \<^verbatim>\<open>/w/B.sol\<close>, filtered by \<^verbatim>\<open>/w/A.sol\<close>, \<^verbatim>\<open>stridx\<close> returns -1
  for the second finding and both findings are returned.
\<close>

theorem vim_filter_keeps_other_file:
  "map filename_v (ParseRuns [two_file_run] ''/w/A.sol'' []) = [''/w/A.sol'', ''/w/B.sol'']
   \<and> stridx ''/w/A.sol'' ''/w/B.sol'' = - 1"
  by (simp add: two_file_run_def located_result_def ParseFinding_def
      substitute_file_prefix_def file_scheme_def stridx_def)

text \<open>
  The same report and filter in IntelliJ and in Lua: one finding, the one of
  \<^verbatim>\<open>/w/A.sol\<close>.
\<close>

lemma two_file_report_filtered:
  "map startLine_F (parseFindings_of \<lparr> runs = Some [two_file_run] \<rparr> ''/w/A.sol'') = [4]
   \<and> map filename (parse_runs [two_file_run] (Some ''/w/A.sol'') []) = [''/w/A.sol'']"
  by (simp add: two_file_run_def located_result_def parseFindings_of_def parseFinding_def
      newFinding_def java_int_def endsWith_def parse_finding_def artifact_file_def finding_table_def
      lua_gsub_file_prefix_def file_scheme_def)

text \<open>
  The filter of each integration, for a result whose first location has an artifact URI
  \<open>u\<close>. IntelliJ keeps the finding exactly when the stripped URI equals the filter path or
  the filter path ends with it; Lua exactly when the stripped URI equals the filter path;
  the Vim script whenever the filter is empty, equal to the stripped URI, or does not start
  with it. In none of them does the filter raise an error.
\<close>

lemma file_filter_by_integration:
  assumes "locations result = Some (loc # others)" and "physicalLocation loc = Some phys"
    and "artifactLocation phys = Some a" and "uri a = Some u"
  shows "parseFinding result path =
           Inr (if java_replace file_scheme [] u = path \<or> suffix (java_replace file_scheme [] u) path
                then Some (newFinding result phys) else None)"
    and "parse_finding result (Some path) =
           (if lua_gsub_file_prefix u = path then Some (finding_table result phys) else None)"
    and "ParseFinding result path \<noteq> None \<longleftrightarrow>
           path = [] \<or> substitute_file_prefix u = path \<or> \<not> prefix (substitute_file_prefix u) path"
proof -
  show "parseFinding result path =
           Inr (if java_replace file_scheme [] u = path \<or> suffix (java_replace file_scheme [] u) path
                then Some (newFinding result phys) else None)"
    using assms by (simp add: parseFinding_def Let_def endsWith_suffix)
  show "parse_finding result (Some path) =
           (if lua_gsub_file_prefix u = path then Some (finding_table result phys) else None)"
    using assms by (auto simp: parse_finding_def artifact_file_def)
  have "stridx h n = 0 \<longleftrightarrow> prefix n h" for h n
  proof (cases "find (\<lambda>i. prefix n (drop i h)) [0 ..< Suc (length h)]")
    case None
    then have "\<not> prefix n (drop 0 h)"
      unfolding find_None_iff by (metis atLeastLessThan_iff set_upt zero_le zero_less_Suc)
    with None show ?thesis by (simp add: stridx_def)
  next
    case (Some i)
    then obtain k where k: "k < length [0 ..< Suc (length h)]" "prefix n (drop ([0 ..< Suc (length h)] ! k) h)"
       "i = [0 ..< Suc (length h)] ! k" "\<forall>j<k. \<not> prefix n (drop ([0 ..< Suc (length h)] ! j) h)"
      unfolding find_Some_iff by blast
    then have ik: "i = k" by (metis add_0 length_upt minus_nat.diff_0 nth_upt)
    show ?thesis
    proof
      assume "stridx h n = 0"
      with Some have "i = 0" by (simp add: stridx_def)
      with k show "prefix n h" by simp
    next
      assume p: "prefix n h"
      have "k = 0"
      proof (rule ccontr)
        assume "k \<noteq> 0"
        then have "0 < k" by simp
        with k(4) have "\<not> prefix n (drop ([0 ..< Suc (length h)] ! 0) h)" by blast
        moreover have "[0 ..< Suc (length h)] ! 0 = 0"
          by (metis add_0 nth_upt zero_less_Suc)
        ultimately show False using p by simp
      qed
      with ik Some show "stridx h n = 0" by (simp add: stridx_def)
    qed
  qed
  then show "ParseFinding result path \<noteq> None \<longleftrightarrow>
           path = [] \<or> substitute_file_prefix u = path \<or> \<not> prefix (substitute_file_prefix u) path"
    using assms by (auto simp: ParseFinding_def Let_def)
qed

section \<open>Failed scan invocations\<close>

text \<open>
  C5: after an exit code other than 0 and 1 the output is not parsed, a failed scan is
  reported, and the diagnostics shown before stay. This fails in the Lua plugin:
  \<^verbatim>\<open>on_stdout\<close> hands the captured output to
  \<^verbatim>\<open>process_results\<close> without looking at the exit code. For a job that prints nothing
  and exits with code 2 while buffer 1 shows a diagnostic of an earlier scan,
  \<^verbatim>\<open>parse_sarif\<close> is run on the output, the diagnostic is cleared, and the user is told
  both that no issues were found and that the scan failed.
\<close>

theorem lua_failed_scan_clears_diagnostics:
  "diagnostics (scan_current_file_job (\<lambda>s. None) (\<lambda>b. ''/w/A.sol'') 1 (Some [[]]) 2 shown_state) 1 = []
   \<and> notifications (scan_current_file_job (\<lambda>s. None) (\<lambda>b. ''/w/A.sol'') 1 (Some [[]]) 2 shown_state)
       = [(''BlockSecOps: No issues found'', levels_INFO),
          (''BlockSecOps: Scan failed with exit code 2'', levels_ERROR)]
   \<and> diagnostics shown_state 1 = [shown_diagnostic]"
  by (simp add: scan_current_file_job_def on_exit_def on_stdout_def process_results_def
      clear_diagnostics_def notify_def parse_sarif_def shown_state_def string_of_int_def digit_char_def)

text \<open>
  Whatever the exit code, a Lua job that delivered at least one line of output leaves
  exactly the diagnostics parsed from that output.
\<close>

lemma lua_on_stdout_ignores_exit_code:
  "diagnostics (scan_current_file_job json_decode buf_get_name bufnr (Some (l # ls)) exit_code st)
     = (\<lambda>b. if b = bufnr
             then map (to_diagnostic bufnr)
                    (parse_sarif json_decode buf_get_name (table_concat (l # ls) [CHR 0x0A]) (Some bufnr))
             else [])"
  by (auto simp: scan_current_file_job_def on_exit_def on_stdout_def process_results_def
      clear_diagnostics_def notify_def Let_def fun_eq_iff)

text \<open>
  VS Code and the IntelliJ annotator do what C5 says: with an exit code other than 0 and
  1 the result does not depend on the parser, the failure is logged as a failed scan, the
  diagnostic collection is left as it was, and \<^verbatim>\<open>doAnnotate\<close> returns \<^verbatim>\<open>null\<close>.
\<close>

lemma vscode_failed_scan_keeps_diagnostics:
  assumes "code \<noteq> Some 0" and "code \<noteq> Some 1"
  shows "runScan_close json_parse stdout stderr code
           = ((if stderr \<noteq> [] then [''stderr: '' @ stderr] else [])
                @ [''Scan failed with exit code: '' @ exitCodeText code], None)"
    and "diagnosticCollection (scanFile_completed uri_file json_parse stdout stderr code st)
           = diagnosticCollection st"
    and "statusBarText (scanFile_completed uri_file json_parse stdout stderr code st)
           = ''$(error) BlockSecOps''"
    and "doAnnotate fromJson exitCode out path = None \<longleftrightarrow> exitCode \<noteq> 0 \<and> exitCode \<noteq> 1"
  using assms
  by (auto simp: runScan_close_def scanFile_completed_def scanCurrentFile_def Let_def doAnnotate_def)

section \<open>Findings without locations\<close>

text \<open>
  C7. A result whose \<^verbatim>\<open>locations\<close> are absent or empty yields no finding in any
  integration (VS Code, Lua, IntelliJ, Vim script), and the loop over the results goes on
  as if the result were not there. All functions involved are functions of the report
  alone, so the findings left out are the same on every call.
\<close>

theorem no_locations_dropped:
  assumes "locations r = None \<or> locations r = Some []"
  shows "createDiagnosticsForResult r rls = Inr []
    \<and> resultsLoop rls (r # items) m = resultsLoop rls items m
    \<and> parse_finding r ff = None
    \<and> parse_results (r # rest) ff acc = parse_results rest ff acc
    \<and> parseFinding r path = Inr None
    \<and> parseResults (r # rest) path acc' = parseResults rest path acc'
    \<and> ParseFinding r filter_file = None
    \<and> ParseResults (r # rest) filter_file acc'' = ParseResults rest filter_file acc''"
proof -
  have a: "createDiagnosticsForResult r rls = Inr []"
    using assms by (auto simp: createDiagnosticsForResult_def)
  have b: "parse_finding r ff = None"
    using assms by (auto simp: parse_finding_def)
  have c: "parseFinding r path = Inr None"
    using assms by (auto simp: parseFinding_def)
  have d: "ParseFinding r filter_file = None"
    using assms by (auto simp: ParseFinding_def)
  from a b c d show ?thesis by (simp add: pushAll_def)
qed

text \<open>
  Two results, one without \<^verbatim>\<open>locations\<close> and one with an empty array.
\<close>

theorem no_locations_dropped_witness:
  "parse_results [unlocated_result, unlocated_result\<lparr> locations := Some [] \<rparr>] None [] = []
   \<and> parseResults [unlocated_result, unlocated_result\<lparr> locations := Some [] \<rparr>] ''/c.sol'' [] = []
   \<and> resultsLoop Map.empty [unlocated_result, unlocated_result\<lparr> locations := Some [] \<rparr>] [] = Inr []"
proof -
  have 1: "locations unlocated_result = None \<or> locations unlocated_result = Some []"
    by (simp add: unlocated_result_def)
  have 2: "locations (unlocated_result\<lparr> locations := Some [] \<rparr>) = None
         \<or> locations (unlocated_result\<lparr> locations := Some [] \<rparr>) = Some []"
    by simp
  show ?thesis
    using no_locations_dropped [OF 1] no_locations_dropped [OF 2] by (simp add: pushAll_def)
qed

section \<open>The issue count of the IntelliJ scan action\<close>

lemma prefix_take: "prefix xs ys \<longleftrightarrow> take (length xs) ys = xs"
  by (metis append_eq_conv_conj prefix_def take_is_prefix)

lemma upt_split: "a \<le> i \<Longrightarrow> i < n \<Longrightarrow> [a ..< n] = [a ..< i] @ i # [Suc i ..< n]"
  by (metis le_Suc_ex less_imp_le_nat upt_add_eq_append upt_conv_Cons)

lemma indexOf_None:
  "indexOf s pat from = None \<Longrightarrow> filter (\<lambda>i. prefix pat (drop i s)) [from ..< length s] = []"
  unfolding indexOf_def find_None_iff by (simp add: filter_empty_conv)

lemma indexOf_Some:
  assumes "indexOf s pat from = Some i"
  shows "from \<le> i" and "i < length s" and "prefix pat (drop i s)"
    and "filter (\<lambda>i. prefix pat (drop i s)) [from ..< i] = []"
proof -
  from assms obtain k where k: "k < length [from ..< length s]" "prefix pat (drop ([from ..< length s] ! k) s)"
    "i = [from ..< length s] ! k" "\<forall>j<k. \<not> prefix pat (drop ([from ..< length s] ! j) s)"
    unfolding indexOf_def find_Some_iff by blast
  from k(1,3) have i: "i = from + k" "from + k < length s" by auto
  then show "from \<le> i" "i < length s" by auto
  from k(2,3) show "prefix pat (drop i s)" by simp
  have "\<not> prefix pat (drop j s)" if "j \<in> set [from ..< i]" for j
  proof -
    from that i have "from \<le> j" "j - from < k" by auto
    with k(4) have "\<not> prefix pat (drop ([from ..< length s] ! (j - from)) s)" by blast
    moreover have "[from ..< length s] ! (j - from) = j"
      using \<open>from \<le> j\<close> \<open>j - from < k\<close> i by auto
    ultimately show ?thesis by simp
  qed
  then show "filter (\<lambda>i. prefix pat (drop i s)) [from ..< i] = []"
    by (simp add: filter_empty_conv)
qed

lemma countLoop_counts:
  "countLoop s index count
     = count + length (filter (\<lambda>i. prefix ruleId_key (drop i s)) [index ..< length s])"
proof (induction s index count rule: countLoop.induct)
  case (1 s index count)
  show ?case
  proof (cases "indexOf s ruleId_key index")
    case None
    then show ?thesis
      using indexOf_None [OF None] by (subst countLoop.simps) simp
  next
    case (Some i)
    note io = indexOf_Some [OF Some]
    have "[index ..< length s] = [index ..< i] @ i # [Suc i ..< length s]"
      using io(1,2) by (rule upt_split)
    then have "length (filter (\<lambda>i. prefix ruleId_key (drop i s)) [index ..< length s])
        = Suc (length (filter (\<lambda>i. prefix ruleId_key (drop i s)) [Suc i ..< length s]))"
      using io(3,4) by simp
    moreover have "countLoop s index count = countLoop s (i + 1) (count + 1)"
      using Some by (subst countLoop.simps) simp
    ultimately show ?thesis
      using "1.IH" [OF Some] by simp
  qed
qed

lemma countFindings_occurrences: "countFindings s = occurrences ruleId_key s"
  by (simp add: countFindings_def countLoop_counts occurrences_def prefix_take)

text \<open>
  Against C10 as stated: a report whose rules table defines a rule, and whose one result
  has a location in the scanned file. The count is 1 and the annotator's
  \<^verbatim>\<open>parseFindings\<close> yields 1 finding: a rule is written with the key \<^verbatim>\<open>"id"\<close>, which
  \<^verbatim>\<open>countFindings\<close> does not count.
\<close>

theorem rules_table_counterexample:
  "countFindings ruled_report_text = 1
   \<and> length (parseFindings_of ruled_report ''/c.sol'') = 1
   \<and> (case runs ruled_report of Some [run] \<Rightarrow> runRules run (Some ''R1'') \<noteq> None | _ \<Rightarrow> False)"
proof -
  have "countFindings ruled_report_text = 1"
    by code_simp
  moreover have "length (parseFindings_of ruled_report ''/c.sol'') = 1"
    by (simp add: ruled_report_def parseFindings_of_def parseFinding_def Let_def endsWith_def file_scheme_def)
  moreover have "case runs ruled_report of Some [run] \<Rightarrow> runRules run (Some ''R1'') \<noteq> None | _ \<Rightarrow> False"
    by (simp add: ruled_report_def runRules_def rulesMap_def)
  ultimately show ?thesis by blast
qed

text \<open>
  C10 (amended). With exit code 1 the notification reports the number of positions at
  which \<^verbatim>\<open>"ruleId"\<close> (quotes included) occurs in the raw output. For the report with one
  result that has no locations this count is 1, while IntelliJ's \<^verbatim>\<open>parseFindings\<close>,
  Lua's \<^verbatim>\<open>parse_sarif\<close> and VS Code's \<^verbatim>\<open>updateDiagnostics\<close> all produce no finding.
\<close>

theorem issue_count:
  "notification (handleScanResult output 1) =
     (''Scan complete: '' @ string_of_nat (occurrences ruleId_key output) @ '' issue''
        @ (if occurrences ruleId_key output \<noteq> 1 then ''s'' else []) @ '' found'',
      NotificationType_WARNING)
   \<and> countFindings unlocated_report_text = 1
   \<and> parseFindings_of unlocated_report path = []
   \<and> parse_runs (case runs unlocated_report of None \<Rightarrow> [] | Some rs \<Rightarrow> rs) filter_file [] = []
   \<and> updateDiagnostics uri_file unlocated_report coll = (None, [])"
proof -
  have a: "notification (handleScanResult output 1) =
     (''Scan complete: '' @ string_of_nat (occurrences ruleId_key output) @ '' issue''
        @ (if occurrences ruleId_key output \<noteq> 1 then ''s'' else []) @ '' found'',
      NotificationType_WARNING)"
    by (simp add: handleScanResult_def Let_def countFindings_occurrences)
  have b: "countFindings unlocated_report_text = 1"
    by code_simp
  have c: "parseFindings_of unlocated_report path = []"
    by (simp add: unlocated_report_def parseFindings_of_def parseFinding_def)
  have d: "parse_runs (case runs unlocated_report of None \<Rightarrow> [] | Some rs \<Rightarrow> rs) filter_file [] = []"
    by (simp add: unlocated_report_def parse_finding_def)
  have e: "updateDiagnostics uri_file unlocated_report coll = (None, [])"
    by (simp add: unlocated_report_def updateDiagnostics_def createDiagnosticsForResult_def pushAll_def)
  from a b c d e show ?thesis by blast
qed

text \<open>
  The notification for the report with one unlocated result.
\<close>

theorem issue_count_witness:
  "fst (notification (handleScanResult unlocated_report_text 1)) = ''Scan complete: 1 issue found''"
proof -
  have "occurrences ruleId_key unlocated_report_text = 1"
    by code_simp
  then show ?thesis
    using issue_count [of unlocated_report_text, THEN conjunct1] by (simp add: digit_char_def)
qed

section \<open>The \<^verbatim>\<open>file://\<close> prefix\<close>




section \<open>Message resolution\<close>

text \<open>
  The sample result \<open>empty_message_result\<close> is the one of scenario A: rule id
  \<^verbatim>\<open>REENTRANCY-001\<close>, an empty message text and one location at line 10 of
  \<^verbatim>\<open>file:///c.sol\<close>. Its region resolves to the range from character 0 to character 998 of
  line 9. \<open>blank_result\<close> is the same result with the empty string as rule id,
  \<open>blank_rule\<close> a rule \<^verbatim>\<open>REENTRANCY-001\<close> whose short description is the empty string.
\<close>

lemma empty_message_range:
  "resolveRange (Some \<lparr> startLine = Some 10, startColumn = None, endLine = None, endColumn = None \<rparr>)
     = Inr line_ten_range"
  by (subst resolveRange_safe)
    (simp_all add: region_safe_def field_safe_def field_value_def ordered_range_def line_ten_range_def)

lemma empty_message_result_facts:
  "uri_locations empty_message_result = [hd (uri_locations empty_message_result)]"
  "region_safe (location_region (hd (uri_locations empty_message_result)))"
  "message empty_message_result = Some \<lparr> text = Some [] \<rparr>"
  "ruleId empty_message_result = Some ''REENTRANCY-001''"
  "uri_locations (empty_message_result \<lparr> ruleId := x \<rparr>) = uri_locations empty_message_result"
  "uri_locations (empty_message_result \<lparr> message := y \<rparr>) = uri_locations empty_message_result"
  by (simp_all add: empty_message_result_def uri_locations_def item_locations_def location_uri_def
      js_truthy_def location_region_def region_safe_def field_safe_def)

text \<open>
  Against C6 as stated, three inputs. In Lua, \<^verbatim>\<open>parse_finding\<close> gives the result of scenario A
  the empty message: it falls back neither to a rule description nor to the rule id. In
  VS Code, with the rule id found in the rule table and the description of that rule empty,
  the message is the rule id and not the description. In VS Code again, with an empty message
  text and the empty string as rule id, matched by no rule, \<^verbatim>\<open>new vscode.Diagnostic\<close> throws
  \<^verbatim>\<open>TypeError('message must be set')\<close> and \<^verbatim>\<open>createDiagnosticsForResult\<close> does not return.
\<close>

theorem message_fallback_counterexample:
  "map message_f (parse_results [empty_message_result] None []) = [[]]
   \<and> ruleId empty_message_result = Some ''REENTRANCY-001''
   \<and> rulesMap [blank_rule] (Some ''REENTRANCY-001'') = Some blank_rule
   \<and> shortDescription blank_rule = Some \<lparr> text = Some [] \<rparr>
   \<and> createDiagnosticsForResult empty_message_result (rulesMap [blank_rule]) =
        Inr [(''/c.sol'',
              \<lparr> diag_range = line_ten_range, diag_message = ''REENTRANCY-001'',
                diag_severity = Error, diag_source = Some ''blocksecops'',
                diag_code = Some ''REENTRANCY-001'' \<rparr>)]
   \<and> ruleId blank_result = Some []
   \<and> rulesMap [] (Some []) = None
   \<and> createDiagnosticsForResult blank_result (rulesMap []) = Inl (TypeError ''message must be set'')"
proof -
  have a: "map message_f (parse_results [empty_message_result] None []) = [[]]"
    by (simp add: empty_message_result_def parse_finding_def finding_table_def lua_or_def)
  have b: "rulesMap [blank_rule] (Some ''REENTRANCY-001'') = Some blank_rule"
    "shortDescription blank_rule = Some \<lparr> text = Some [] \<rparr>"
    "rulesMap [] (Some []) = None" "ruleId blank_result = Some []"
    "ruleId empty_message_result = Some ''REENTRANCY-001''"
    by (simp_all add: rulesMap_def blank_rule_def blank_result_def empty_message_result_def)
  have c: "createDiagnosticsForResult empty_message_result (rulesMap [blank_rule]) =
        Inr [(''/c.sol'',
              \<lparr> diag_range = line_ten_range, diag_message = ''REENTRANCY-001'',
                diag_severity = Error, diag_source = Some ''blocksecops'',
                diag_code = Some ''REENTRANCY-001'' \<rparr>)]"
    by (simp add: createDiagnosticsForResult_def empty_message_result_def diagnosticForLocation_def
        location_uri_def location_region_def js_truthy_def empty_message_range resolveMessage_def
        rulesMap_def blank_rule_def rule_short_text_def newDiagnostic_def mapSeverity_def
        file_scheme_def)
  have d: "createDiagnosticsForResult blank_result (rulesMap []) = Inl (TypeError ''message must be set'')"
    by (simp add: createDiagnosticsForResult_def blank_result_def empty_message_result_def
        diagnosticForLocation_def location_uri_def location_region_def js_truthy_def
        empty_message_range resolveMessage_def rulesMap_def rule_short_text_def newDiagnostic_def)
  from a b c d show ?thesis by simp
qed

text \<open>
  Claim C6, amended. Whenever the VS Code \<^verbatim>\<open>createDiagnosticsForResult\<close> returns, it returns
  one entry for every location that has a URI, and the message of every entry is the result's
  own message text when that is a non-empty string, otherwise the short description of the rule
  the table holds for the rule id when that is a non-empty string, otherwise the rule id. The
  table \<^verbatim>\<open>new Map(rules.map(...))\<close> holds a rule for an id exactly when some rule of the run has
  that id, and the rule it holds has that id. A rule id that is a non-empty string never causes
  an error, matched or not: with a \<^verbatim>\<open>message\<close> object and safe regions the function returns.
  It throws \<^verbatim>\<open>TypeError('message must be set')\<close> when message text, rule description and rule
  id are all empty or absent, and a \<^verbatim>\<open>TypeError\<close> when the result has no \<^verbatim>\<open>message\<close> object
  (both for a result with a location that has a URI and a safe region). In Lua the message is
  the result's own message text, the empty string when absent, without any fallback.
\<close>

theorem message_resolution:
  "(createDiagnosticsForResult item rls = Inr ds \<longrightarrow>
      length ds = length (uri_locations item)
      \<and> (\<forall>p\<in>set ds. \<exists>m. message item = Some m
            \<and> (if js_truthy (text m) then text m
                else if js_truthy (rule_short_text (rls (ruleId item)))
                     then rule_short_text (rls (ruleId item))
                     else ruleId item) = Some (diag_message (snd p))))
   \<and> (rulesMap rs k = Some r \<longrightarrow> r \<in> set rs \<and> id_rule r = k)
   \<and> (rulesMap rs k = None \<longleftrightarrow> k \<notin> id_rule ` set rs)
   \<and> (js_truthy (ruleId item) \<and> message item \<noteq> None
        \<and> list_all (\<lambda>l. region_safe (location_region l)) (uri_locations item)
      \<longrightarrow> (\<exists>ds. createDiagnosticsForResult item rls = Inr ds))
   \<and> (uri_locations item = l # others \<and> region_safe (location_region l)
        \<and> message item = Some m \<and> \<not> js_truthy (text m)
        \<and> \<not> js_truthy (rule_short_text (rls (ruleId item))) \<and> \<not> js_truthy (ruleId item)
      \<longrightarrow> createDiagnosticsForResult item rls = Inl (TypeError ''message must be set''))
   \<and> (uri_locations item = l # others \<and> region_safe (location_region l) \<and> message item = None
      \<longrightarrow> (\<exists>s. createDiagnosticsForResult item rls = Inl (TypeError s)))
   \<and> (parse_finding result ff = Some x \<longrightarrow>
        message_f x = (case message result of None \<Rightarrow> []
                       | Some m \<Rightarrow> (case text m of None \<Rightarrow> [] | Some t \<Rightarrow> t)))"
proof (intro conjI impI ballI)
  assume h: "createDiagnosticsForResult item rls = Inr ds"
  from list_all2_lengthD [OF createDiagnostics_all2 [OF h]]
  show "length ds = length (uri_locations item)" by simp
  fix p assume "p \<in> set ds"
  with h show "\<exists>m. message item = Some m
            \<and> (if js_truthy (text m) then text m
                else if js_truthy (rule_short_text (rls (ruleId item)))
                     then rule_short_text (rls (ruleId item))
                     else ruleId item) = Some (diag_message (snd p))"
    by (rule createDiagnostics_message)
next
  assume "rulesMap rs k = Some r"
  from rulesMap_Some [OF this] show "r \<in> set rs" "id_rule r = k" by simp_all
next
  show "rulesMap rs k = None \<longleftrightarrow> k \<notin> id_rule ` set rs" by (rule rulesMap_None)
next
  assume "js_truthy (ruleId item) \<and> message item \<noteq> None
        \<and> list_all (\<lambda>l. region_safe (location_region l)) (uri_locations item)"
  then have "item_safe rls item" by (auto simp: item_safe_def)
  then show "\<exists>ds. createDiagnosticsForResult item rls = Inr ds" by (rule createDiagnostics_safe)
next
  assume h: "uri_locations item = l # others \<and> region_safe (location_region l)
        \<and> message item = Some m \<and> \<not> js_truthy (text m)
        \<and> \<not> js_truthy (rule_short_text (rls (ruleId item))) \<and> \<not> js_truthy (ruleId item)"
  then have "l \<in> set (uri_locations item)" by simp
  then have t: "js_truthy (location_uri l)" by (simp add: uri_locations_def)
  from h have "resolveMessage item (rls (ruleId item)) = Inr (ruleId item)"
    by (simp add: resolveMessage_def)
  with t h diagnosticForLocation_message_error [of l item rls "ruleId item"]
  have "diagnosticForLocation item rls l = Inl (TypeError ''message must be set'')" by simp
  with h show "createDiagnosticsForResult item rls = Inl (TypeError ''message must be set'')"
    using createDiagnostics_first_error [of item l others rls] by simp
next
  assume h: "uri_locations item = l # others \<and> region_safe (location_region l) \<and> message item = None"
  then have "l \<in> set (uri_locations item)" by simp
  then have t: "js_truthy (location_uri l)" by (simp add: uri_locations_def)
  from h have "region_safe (location_region l)" "message item = None" by simp_all
  from diagnosticForLocation_no_message [OF t this, of rls]
  obtain s where "diagnosticForLocation item rls l = Inl (TypeError s)" ..
  with h show "\<exists>s. createDiagnosticsForResult item rls = Inl (TypeError s)"
    using createDiagnostics_first_error [of item l others rls] by auto
next
  assume "parse_finding result ff = Some x"
  then show "message_f x = (case message result of None \<Rightarrow> []
                       | Some m \<Rightarrow> (case text m of None \<Rightarrow> [] | Some t \<Rightarrow> t))"
    by (elim parse_finding_Some) (simp add: finding_table_def lua_or_def split: option.splits)
qed

text \<open>
  The theorem on scenario A of the specification: with the rule \<^verbatim>\<open>REENTRANCY-001\<close> of short
  description \<^verbatim>\<open>Reentrancy risk\<close> in the table, \<^verbatim>\<open>createDiagnosticsForResult\<close> returns one
  entry and its message is \<^verbatim>\<open>Reentrancy risk\<close>; and on the two throwing inputs and a Lua
  finding.
\<close>

theorem message_resolution_witness:
  "(\<exists>d. createDiagnosticsForResult empty_message_result (rulesMap [reentrancy_rule]) = Inr [d]
        \<and> diag_message (snd d) = ''Reentrancy risk'')
   \<and> rulesMap [reentrancy_rule] (Some ''REENTRANCY-001'') = Some reentrancy_rule
   \<and> createDiagnosticsForResult blank_result Map.empty = Inl (TypeError ''message must be set'')
   \<and> (\<exists>s. createDiagnosticsForResult (empty_message_result \<lparr> message := None \<rparr>) Map.empty
          = Inl (TypeError s))
   \<and> (\<exists>x. parse_finding (located_result ''R1'' ''file:///c.sol'') None = Some x
          \<and> message_f x = ''finding'')"
proof -
  let ?rls = "rulesMap [reentrancy_rule]"
  let ?k = "Some ''REENTRANCY-001''"
  let ?l = "hd (uri_locations empty_message_result)"
  note f = empty_message_result_facts
  have "?k \<in> id_rule ` set [reentrancy_rule]" by (simp add: reentrancy_rule_def)
  with message_resolution [where rs = "[reentrancy_rule]" and k = ?k, THEN conjunct2, THEN conjunct2,
      THEN conjunct1]
  obtain r where r: "?rls ?k = Some r" by auto
  from message_resolution [where rs = "[reentrancy_rule]" and k = ?k and r = r, THEN conjunct2,
      THEN conjunct1] r
  have rule: "?rls ?k = Some reentrancy_rule" by simp
  have "list_all (\<lambda>l. region_safe (location_region l)) (uri_locations empty_message_result)"
    by (subst f(1)) (simp add: f(2))
  moreover have "js_truthy (ruleId empty_message_result)" "message empty_message_result \<noteq> None"
    by (simp_all add: f js_truthy_def)
  ultimately have "js_truthy (ruleId empty_message_result) \<and> message empty_message_result \<noteq> None
    \<and> list_all (\<lambda>l. region_safe (location_region l)) (uri_locations empty_message_result)"
    by simp
  with message_resolution [where item = empty_message_result and rls = ?rls, THEN conjunct2,
      THEN conjunct2, THEN conjunct2, THEN conjunct1]
  obtain ds where ds: "createDiagnosticsForResult empty_message_result ?rls = Inr ds" by blast
  note c1 = message_resolution [where item = empty_message_result and rls = ?rls and ds = ds,
      THEN conjunct1, THEN mp, OF ds]
  from c1 have "length ds = 1" by (subst (asm) f(1)) simp
  then obtain d where d: "ds = [d]" by (cases ds) auto
  with c1 obtain m where "message empty_message_result = Some m"
    "(if js_truthy (text m) then text m
      else if js_truthy (rule_short_text (?rls (ruleId empty_message_result)))
           then rule_short_text (?rls (ruleId empty_message_result))
           else ruleId empty_message_result) = Some (diag_message (snd d))"
    by auto
  moreover have "rule_short_text (?rls (ruleId empty_message_result)) = Some ''Reentrancy risk''"
    unfolding f(4) rule by (simp add: rule_short_text_def reentrancy_rule_def)
  ultimately have "diag_message (snd d) = ''Reentrancy risk''"
    by (auto simp: f(3) js_truthy_def)
  with ds d have a: "\<exists>d. createDiagnosticsForResult empty_message_result ?rls = Inr [d]
        \<and> diag_message (snd d) = ''Reentrancy risk''" by blast
  have b1: "uri_locations blank_result = ?l # []"
    unfolding blank_result_def f(5) by (rule f(1))
  have b2: "message blank_result = Some \<lparr> text = Some [] \<rparr>"
    "\<not> js_truthy (text \<lparr> text = Some [] \<rparr>)"
    "\<not> js_truthy (rule_short_text (Map.empty (ruleId blank_result)))"
    "\<not> js_truthy (ruleId blank_result)"
    by (simp_all add: blank_result_def f(3) js_truthy_def rule_short_text_def)
  have b: "createDiagnosticsForResult blank_result Map.empty = Inl (TypeError ''message must be set'')"
    by (rule message_resolution [where item = blank_result and rls = Map.empty and l = ?l
        and others = "[]" and m = "\<lparr> text = Some [] \<rparr>", THEN conjunct2, THEN conjunct2,
        THEN conjunct2, THEN conjunct2, THEN conjunct1, THEN mp])
      (intro conjI b1 b2 f(2))
  have c1: "uri_locations (empty_message_result \<lparr> message := None \<rparr>) = ?l # []"
    unfolding f(6) by (rule f(1))
  have c2: "message (empty_message_result \<lparr> message := None \<rparr>) = None" by simp
  have c: "\<exists>s. createDiagnosticsForResult (empty_message_result \<lparr> message := None \<rparr>) Map.empty
          = Inl (TypeError s)"
    by (rule message_resolution [where item = "empty_message_result \<lparr> message := None \<rparr>"
        and rls = Map.empty and l = ?l and others = "[]", THEN conjunct2, THEN conjunct2,
        THEN conjunct2, THEN conjunct2, THEN conjunct2, THEN conjunct1, THEN mp])
      (intro conjI c1 c2 f(2))
  have "\<exists>x. parse_finding (located_result ''R1'' ''file:///c.sol'') None = Some x"
    by (simp add: parse_finding_def located_result_def)
  then obtain x where x: "parse_finding (located_result ''R1'' ''file:///c.sol'') None = Some x" ..
  from message_resolution [where result = "located_result ''R1'' ''file:///c.sol''" and ff = None
      and x = x, THEN conjunct2, THEN conjunct2, THEN conjunct2, THEN conjunct2, THEN conjunct2,
      THEN conjunct2, THEN mp, OF x]
  have "message_f x = ''finding''" by (simp add: located_result_def)
  with x have e: "\<exists>x. parse_finding (located_result ''R1'' ''file:///c.sol'') None = Some x
          \<and> message_f x = ''finding''" by blast
  from a rule b c e show ?thesis by blast
qed

section \<open>Region defaulting\<close>

text \<open>
  Two sample results, each with one location in \<^verbatim>\<open>file:///c.sol\<close>. The region of
  \<open>line_only_result\<close> has \<^verbatim>\<open>startLine\<close> 10 and nothing else. The region of \<open>wide_result\<close>
  runs from line 3 to line 5, starts at column 1500 and has no \<^verbatim>\<open>endColumn\<close>.
\<close>

lemma wide_region_range:
  "resolveRange (Some wide_region)
     = Inr \<lparr> range_startLine = Number 2, range_startCharacter = Number 1499,
             range_endLine = Number 4, range_endCharacter = Number 998 \<rparr>"
  by (subst resolveRange_safe)
    (simp_all add: wide_region_def region_safe_def field_safe_def field_value_def ordered_range_def)

lemma line_only_result_facts:
  "uri_locations line_only_result = [hd (uri_locations line_only_result)]"
  "location_region (hd (uri_locations line_only_result))
     = Some \<lparr> startLine = Some 10, startColumn = None, endLine = None, endColumn = None \<rparr>"
  "item_safe rls line_only_result"
  "locations line_only_result = Some (hd (uri_locations line_only_result) # [])"
  "physicalLocation (hd (uri_locations line_only_result))
     = Some \<lparr> artifactLocation = Some \<lparr> uri = Some ''file:///c.sol'' \<rparr>,
              region = Some \<lparr> startLine = Some 10, startColumn = None, endLine = None, endColumn = None \<rparr> \<rparr>"
  by (simp_all add: line_only_result_def uri_locations_def item_locations_def location_uri_def
      js_truthy_def location_region_def region_safe_def field_safe_def item_safe_def)

text \<open>
  Against C4 as stated, two inputs. In VS Code the region from line 3, column 1500, to line 5
  without \<^verbatim>\<open>endColumn\<close> yields a diagnostic whose range ends at character 998 (column 999),
  below the start column 1500 of the region. In IntelliJ a region without \<^verbatim>\<open>startColumn\<close>
  yields a finding with start column 0, not 1.
\<close>

theorem region_defaults_counterexample:
  "endColumn wide_region = None
   \<and> startColumn wide_region = Some 1500
   \<and> createDiagnosticsForResult wide_result Map.empty =
        Inr [(''/c.sol'',
              \<lparr> diag_range = \<lparr> range_startLine = Number 2, range_startCharacter = Number 1499,
                               range_endLine = Number 4, range_endCharacter = Number 998 \<rparr>,
                diag_message = ''m'', diag_severity = Error, diag_source = Some ''blocksecops'',
                diag_code = Some ''R1'' \<rparr>)]
   \<and> map_sum id (map_option startColumn_F) (parseFinding line_only_result ''/c.sol'') = Inr (Some 0)"
proof -
  have a: "endColumn wide_region = None" "startColumn wide_region = Some 1500"
    by (simp_all add: wide_region_def)
  have b: "createDiagnosticsForResult wide_result Map.empty =
        Inr [(''/c.sol'',
              \<lparr> diag_range = \<lparr> range_startLine = Number 2, range_startCharacter = Number 1499,
                               range_endLine = Number 4, range_endCharacter = Number 998 \<rparr>,
                diag_message = ''m'', diag_severity = Error, diag_source = Some ''blocksecops'',
                diag_code = Some ''R1'' \<rparr>)]"
    by (simp add: createDiagnosticsForResult_def wide_result_def diagnosticForLocation_def
        location_uri_def location_region_def js_truthy_def wide_region_range resolveMessage_def
        newDiagnostic_def mapSeverity_def file_scheme_def)
  have c: "map_sum id (map_option startColumn_F) (parseFinding line_only_result ''/c.sol'') = Inr (Some 0)"
    by (simp add: line_only_result_def parseFinding_def newFinding_def file_scheme_def endsWith_def
        Let_def)
  from a b c show ?thesis by simp
qed

text \<open>
  Claim C4, amended. VS Code: whenever \<^verbatim>\<open>createDiagnosticsForResult\<close> returns, its entries
  answer the locations that have a URI one by one, and for a location whose region is safe
  (numbers from 0 to \<open>2 ^ 53 - 1\<close>) the range of the entry is the range between the two
  resolved positions, the earlier one first as \<^verbatim>\<open>new vscode.Range\<close> puts them, each number one
  less than its one-based value: a missing \<^verbatim>\<open>startLine\<close> resolves to 1, a missing
  \<^verbatim>\<open>startColumn\<close> to 1, a missing \<^verbatim>\<open>endLine\<close> to the resolved start line and a missing
  \<^verbatim>\<open>endColumn\<close> to the sentinel 999 (a present number other than 0 is kept). The function
  returns when \<open>item_safe\<close> holds. With the sentinel as end column: if the region lies on
  one line the range ends at the larger of start column and 999; if its end line is after its
  start line the range ends at column 999, whatever the start column; if its end line is before
  its start line the range ends at the start column. IntelliJ: a missing \<^verbatim>\<open>startLine\<close>
  resolves to 1, a missing \<^verbatim>\<open>endLine\<close> to the start line, a missing \<^verbatim>\<open>startColumn\<close> to 0,
  present numbers are narrowed to 32 bits by \<^verbatim>\<open>getAsInt()\<close>, and no end column is read.
\<close>

theorem region_defaults:
  "(createDiagnosticsForResult item rls = Inr ds \<longrightarrow>
      list_all2 (\<lambda>l p. region_safe (location_region l) \<longrightarrow>
          diag_range (snd p) =
            ordered_range (field_value (location_region l) startLine 1)
              (field_value (location_region l) startColumn 1)
              (field_value (location_region l) endLine (field_value (location_region l) startLine 1))
              (field_value (location_region l) endColumn 999))
        (uri_locations item) ds)
   \<and> (item_safe rls item \<longrightarrow> (\<exists>ds. createDiagnosticsForResult item rls = Inr ds))
   \<and> ((case r of None \<Rightarrow> None | Some g \<Rightarrow> f g) = None \<longrightarrow> field_value r f d = d)
   \<and> ((case r of None \<Rightarrow> None | Some g \<Rightarrow> f g) = Some v \<and> v \<noteq> 0 \<longrightarrow> field_value r f d = v)
   \<and> (sl = el \<longrightarrow>
        range_endCharacter (ordered_range sl sc el 999) = Number (max sc 999 - 1)
        \<and> range_startCharacter (ordered_range sl sc el 999) = Number (min sc 999 - 1))
   \<and> (sl < el \<longrightarrow>
        range_endCharacter (ordered_range sl sc el 999) = Number (999 - 1)
        \<and> range_startCharacter (ordered_range sl sc el 999) = Number (sc - 1))
   \<and> (el < sl \<longrightarrow>
        range_endCharacter (ordered_range sl sc el 999) = Number (sc - 1)
        \<and> range_startCharacter (ordered_range sl sc el 999) = Number (999 - 1))
   \<and> (parseFinding result path = Inr (Some x) \<and> locations result = Some (loc # others)
        \<and> physicalLocation loc = Some phys \<longrightarrow>
        startLine_F x = (case region phys of None \<Rightarrow> 1
                         | Some g \<Rightarrow> (case startLine g of None \<Rightarrow> 1 | Some v \<Rightarrow> java_int v))
        \<and> endLine_F x = (case region phys of None \<Rightarrow> 1
                         | Some g \<Rightarrow> (case endLine g of None \<Rightarrow> startLine_F x | Some v \<Rightarrow> java_int v))
        \<and> startColumn_F x = (case region phys of None \<Rightarrow> 0
                         | Some g \<Rightarrow> (case startColumn g of None \<Rightarrow> 0 | Some v \<Rightarrow> java_int v)))"
proof (intro conjI impI)
  assume "createDiagnosticsForResult item rls = Inr ds"
  then show "list_all2 (\<lambda>l p. region_safe (location_region l) \<longrightarrow>
          diag_range (snd p) =
            ordered_range (field_value (location_region l) startLine 1)
              (field_value (location_region l) startColumn 1)
              (field_value (location_region l) endLine (field_value (location_region l) startLine 1))
              (field_value (location_region l) endColumn 999))
        (uri_locations item) ds"
    by (rule createDiagnostics_range)
next
  assume "item_safe rls item"
  then show "\<exists>ds. createDiagnosticsForResult item rls = Inr ds" by (rule createDiagnostics_safe)
next
  assume "(case r of None \<Rightarrow> None | Some g \<Rightarrow> f g) = None"
  then show "field_value r f d = d" by (simp add: field_value_def split: option.splits)
next
  assume "(case r of None \<Rightarrow> None | Some g \<Rightarrow> f g) = Some v \<and> v \<noteq> 0"
  then show "field_value r f d = v" by (cases r) (auto simp: field_value_def)
next
  assume "sl = el"
  then show "range_endCharacter (ordered_range sl sc el 999) = Number (max sc 999 - 1)"
    "range_startCharacter (ordered_range sl sc el 999) = Number (min sc 999 - 1)"
    by (simp_all add: ordered_range_def)
next
  assume "sl < el"
  then show "range_endCharacter (ordered_range sl sc el 999) = Number (999 - 1)"
    "range_startCharacter (ordered_range sl sc el 999) = Number (sc - 1)"
    by (simp_all add: ordered_range_def)
next
  assume "el < sl"
  then show "range_endCharacter (ordered_range sl sc el 999) = Number (sc - 1)"
    "range_startCharacter (ordered_range sl sc el 999) = Number (999 - 1)"
    by (simp_all add: ordered_range_def)
next
  assume h: "parseFinding result path = Inr (Some x) \<and> locations result = Some (loc # others)
        \<and> physicalLocation loc = Some phys"
  then have h': "parseFinding result path = Inr (Some x)" "locations result = Some (loc # others)"
    "physicalLocation loc = Some phys" by simp_all
  show "startLine_F x = (case region phys of None \<Rightarrow> 1
                         | Some g \<Rightarrow> (case startLine g of None \<Rightarrow> 1 | Some v \<Rightarrow> java_int v))"
    by (rule parseFinding_region(1) [OF h'])
  show "endLine_F x = (case region phys of None \<Rightarrow> 1
                         | Some g \<Rightarrow> (case endLine g of None \<Rightarrow> startLine_F x | Some v \<Rightarrow> java_int v))"
    by (rule parseFinding_region(2) [OF h'])
  show "startColumn_F x = (case region phys of None \<Rightarrow> 0
                         | Some g \<Rightarrow> (case startColumn g of None \<Rightarrow> 0 | Some v \<Rightarrow> java_int v))"
    by (rule parseFinding_region(3) [OF h'])
qed

text \<open>
  The theorem at the region that has only \<^verbatim>\<open>startLine\<close> 10: the VS Code diagnostic covers
  characters 0 to 998 of line 9, and the IntelliJ finding has lines 10 to 10 and start column
  0; and at three ranges that end with the sentinel.
\<close>

theorem region_defaults_witness:
  "(\<exists>p. createDiagnosticsForResult line_only_result Map.empty = Inr [p]
        \<and> diag_range (snd p) = line_ten_range)
   \<and> field_value (Some \<lparr> startLine = Some 10, startColumn = None, endLine = None, endColumn = None \<rparr>)
        startColumn 1 = 1
   \<and> field_value (Some \<lparr> startLine = Some 10, startColumn = None, endLine = None, endColumn = None \<rparr>)
        startLine 1 = 10
   \<and> range_endCharacter (ordered_range 10 1 10 999) = Number 998
   \<and> range_endCharacter (ordered_range 3 1500 5 999) = Number 998
   \<and> range_startCharacter (ordered_range 3 1500 5 999) = Number 1499
   \<and> range_endCharacter (ordered_range 5 1 3 999) = Number 0
   \<and> (\<exists>x. parseFinding line_only_result ''/c.sol'' = Inr (Some x)
          \<and> startLine_F x = 10 \<and> endLine_F x = 10 \<and> startColumn_F x = 0)"
proof -
  let ?l = "hd (uri_locations line_only_result)"
  let ?g = "\<lparr> startLine = Some 10, startColumn = None, endLine = None, endColumn = None \<rparr>"
  let ?phys = "\<lparr> artifactLocation = Some \<lparr> uri = Some ''file:///c.sol'' \<rparr>, region = Some ?g \<rparr>"
  note f = line_only_result_facts
  have fv1: "field_value (Some ?g) startColumn 1 = 1"
    by (rule region_defaults [where r = "Some ?g" and f = startColumn and d = 1,
          THEN conjunct2, THEN conjunct2, THEN conjunct1, THEN mp]) simp
  have fv2: "field_value (Some ?g) startLine 1 = 10"
    by (rule region_defaults [where r = "Some ?g" and f = startLine and d = 1 and v = 10,
          THEN conjunct2, THEN conjunct2, THEN conjunct2, THEN conjunct1, THEN mp]) simp
  have fv3: "field_value (Some ?g) endLine 10 = 10"
    by (rule region_defaults [where r = "Some ?g" and f = endLine and d = 10,
          THEN conjunct2, THEN conjunct2, THEN conjunct1, THEN mp]) simp
  have fv4: "field_value (Some ?g) endColumn 999 = 999"
    by (rule region_defaults [where r = "Some ?g" and f = endColumn and d = 999,
          THEN conjunct2, THEN conjunct2, THEN conjunct1, THEN mp]) simp
  from region_defaults [where item = line_only_result and rls = Map.empty,
      THEN conjunct2, THEN conjunct1] f(3)
  obtain ds where ds: "createDiagnosticsForResult line_only_result Map.empty = Inr ds" by blast
  note a = region_defaults [where item = line_only_result and rls = Map.empty and ds = ds,
      THEN conjunct1, THEN mp, OF ds]
  from a have "list_all2 (\<lambda>l p. region_safe (location_region l) \<longrightarrow>
          diag_range (snd p) =
            ordered_range (field_value (location_region l) startLine 1)
              (field_value (location_region l) startColumn 1)
              (field_value (location_region l) endLine (field_value (location_region l) startLine 1))
              (field_value (location_region l) endColumn 999))
        [?l] ds"
    by (subst (asm) f(1))
  then obtain p where p: "ds = [p]" "region_safe (location_region ?l) \<longrightarrow>
          diag_range (snd p) =
            ordered_range (field_value (location_region ?l) startLine 1)
              (field_value (location_region ?l) startColumn 1)
              (field_value (location_region ?l) endLine (field_value (location_region ?l) startLine 1))
              (field_value (location_region ?l) endColumn 999)"
    by (auto simp: list_all2_Cons1)
  have "region_safe (location_region ?l)"
    unfolding f(2) by (simp add: region_safe_def field_safe_def)
  with p(2) have "diag_range (snd p) = ordered_range 10 1 10 999"
    unfolding f(2) fv1 fv2 fv3 fv4 by simp
  then have "diag_range (snd p) = line_ten_range"
    by (simp add: ordered_range_def line_ten_range_def)
  with ds p(1) have vs: "\<exists>p. createDiagnosticsForResult line_only_result Map.empty = Inr [p]
        \<and> diag_range (snd p) = line_ten_range" by blast
  have o1: "range_endCharacter (ordered_range 10 1 10 999) = Number 998"
    using region_defaults [where sl = 10 and el = 10 and sc = 1, THEN conjunct2, THEN conjunct2, THEN conjunct2, THEN conjunct2, THEN conjunct1] by simp
  have o2: "range_endCharacter (ordered_range 3 1500 5 999) = Number 998"
    "range_startCharacter (ordered_range 3 1500 5 999) = Number 1499"
    using region_defaults [where sl = 3 and el = 5 and sc = 1500, THEN conjunct2, THEN conjunct2, THEN conjunct2, THEN conjunct2, 
        THEN conjunct2, THEN conjunct1] by simp_all
  have o3: "range_endCharacter (ordered_range 5 1 3 999) = Number 0"
    using region_defaults [where sl = 5 and el = 3 and sc = 1, THEN conjunct2, THEN conjunct2, THEN conjunct2, THEN conjunct2, 
        THEN conjunct2, THEN conjunct2, THEN conjunct1]
    by simp
  have "\<exists>x. parseFinding line_only_result ''/c.sol'' = Inr (Some x)"
    by (simp add: line_only_result_def parseFinding_def file_scheme_def endsWith_def Let_def)
  then obtain x where x: "parseFinding line_only_result ''/c.sol'' = Inr (Some x)" ..
  from region_defaults [where result = line_only_result and path = "''/c.sol''" and x = x
      and loc = ?l and others = "[]" and phys = ?phys, THEN conjunct2, THEN conjunct2, THEN conjunct2, THEN conjunct2, 
      THEN conjunct2, THEN conjunct2, THEN conjunct2]
    x f(4,5)
  have "startLine_F x = 10 \<and> endLine_F x = 10 \<and> startColumn_F x = 0"
    by (simp add: java_int_def)
  with x have ij: "\<exists>x. parseFinding line_only_result ''/c.sol'' = Inr (Some x)
          \<and> startLine_F x = 10 \<and> endLine_F x = 10 \<and> startColumn_F x = 0" by blast
  from vs fv1 fv2 o1 o2 o3 ij show ?thesis by blast
qed

section \<open>Malformed JSON and empty runs\<close>





end
